theory Spec2Isabelle
  imports Complex_Main "HOL-Library.Word"
begin

section \<open>Strings\<close>

text \<open>
  Where only the length of a string and its comparison with literals of the source matter,
  a string is a \<open>string\<close>. Where its code units matter (\<^verbatim>\<open>encodeURIComponent\<close>, the
  parser of URLs) it is the list of its 16-bit code units, and so is the url of a request.
  \<open>js\<close> embeds the former in the latter.
\<close>

type_synonym code_unit = "16 word"

type_synonym jsstring = "code_unit list"

definition js :: "string \<Rightarrow> jsstring" where
  "js s = map (\<lambda>c. of_nat (of_char c)) s"

section \<open>JSON values and the zod combinators used by types/schemas.ts\<close>

text \<open>
  A request or response body after \<^verbatim>\<open>JSON.parse\<close>. A JavaScript number that came out of
  \<^verbatim>\<open>JSON.parse\<close> is a finite double (a rational) or, on overflow of the literal, an
  infinity (\<open>JInf True\<close> is \<^verbatim>\<open>+Infinity\<close>); \<^verbatim>\<open>NaN\<close> cannot come out of JSON.
  A string is the list of its code units, so \<open>length\<close> is JavaScript's \<^verbatim>\<open>.length\<close>;
  only the length and the comparison with ASCII literals are used on this side.
  An object is the list of its bindings; a missing key reads as \<^verbatim>\<open>undefined\<close>,
  which is \<open>None\<close> below.
\<close>

datatype json =
    JNull
  | JBool bool
  | JNum rat
  | JInf bool
  | JStr string
  | JArr "json list"
  | JObj "(string \<times> json) list"

definition member_of :: "(string \<times> json) list \<Rightarrow> string \<Rightarrow> json option" where
  "member_of kv k = map_of kv k"

text \<open>
  A \<^verbatim>\<open>ZodError\<close> carries the list of issues, each with the path of the field and a code.
  zod checks every field of an object and every check of a field, and collects the issues.
\<close>

datatype issue_code = invalid_type | too_small | too_big | invalid_enum_value | invalid_string

datatype zod_issue = Issue (ipath: string) (icode: issue_code)

type_synonym 'a parsed = "zod_issue list + 'a"

definition issues_or :: "zod_issue list \<Rightarrow> 'a \<Rightarrow> 'a parsed" where
  "issues_or iss v = (if iss = [] then Inr v else Inl iss)"

text \<open>\<^verbatim>\<open>z.string().min(lo).max(hi)\<close>; a bound that the schema does not set is \<open>None\<close>.\<close>

definition z_string :: "string \<Rightarrow> nat option \<Rightarrow> nat option \<Rightarrow> json option \<Rightarrow> string parsed" where
  "z_string p lo hi v =
     (case v of
        Some (JStr s) \<Rightarrow>
          issues_or
            ((case lo of Some l \<Rightarrow> if length s < l then [Issue p too_small] else [] | None \<Rightarrow> [])
             @ (case hi of Some h \<Rightarrow> if length s > h then [Issue p too_big] else [] | None \<Rightarrow> []))
            s
      | _ \<Rightarrow> Inl [Issue p invalid_type])"

text \<open>
  \<^verbatim>\<open>z.number().int()\<close> with the optional \<^verbatim>\<open>.min(lo)\<close> and \<^verbatim>\<open>.max(hi)\<close>:
  \<^verbatim>\<open>Number.isInteger\<close> is false on a fraction and on an infinity, both bounds are
  inclusive, and every failing check adds its issue.
\<close>

definition is_integer :: "rat \<Rightarrow> bool" where
  "is_integer r = (of_int \<lfloor>r\<rfloor> = r)"

definition z_int :: "string \<Rightarrow> rat option \<Rightarrow> rat option \<Rightarrow> json option \<Rightarrow> int parsed" where
  "z_int p lo hi v =
     (case v of
        Some (JNum r) \<Rightarrow>
          issues_or
            ((if \<not> is_integer r then [Issue p invalid_type] else [])
             @ (case lo of Some l \<Rightarrow> if r < l then [Issue p too_small] else [] | None \<Rightarrow> [])
             @ (case hi of Some h \<Rightarrow> if r > h then [Issue p too_big] else [] | None \<Rightarrow> []))
            \<lfloor>r\<rfloor>
      | Some (JInf pos) \<Rightarrow>
          Inl ([Issue p invalid_type]
               @ (case lo of Some l \<Rightarrow> if \<not> pos then [Issue p too_small] else [] | None \<Rightarrow> [])
               @ (case hi of Some h \<Rightarrow> if pos then [Issue p too_big] else [] | None \<Rightarrow> []))
      | _ \<Rightarrow> Inl [Issue p invalid_type])"

text \<open>\<^verbatim>\<open>z.number().min(lo).max(hi)\<close>, both bounds set: an infinity is beyond one of them.\<close>

definition z_number :: "string \<Rightarrow> rat \<Rightarrow> rat \<Rightarrow> json option \<Rightarrow> rat parsed" where
  "z_number p lo hi v =
     (case v of
        Some (JNum r) \<Rightarrow>
          issues_or
            ((if r < lo then [Issue p too_small] else [])
             @ (if r > hi then [Issue p too_big] else []))
            r
      | Some (JInf pos) \<Rightarrow> Inl [Issue p (if pos then too_big else too_small)]
      | _ \<Rightarrow> Inl [Issue p invalid_type])"

text \<open>\<^verbatim>\<open>z.enum([...])\<close>: a string that is one of the listed values.\<close>

definition z_enum :: "string \<Rightarrow> string list \<Rightarrow> json option \<Rightarrow> string parsed" where
  "z_enum p vals v =
     (case v of
        Some (JStr s) \<Rightarrow> if s \<in> set vals then Inr s else Inl [Issue p invalid_enum_value]
      | _ \<Rightarrow> Inl [Issue p invalid_type])"

text \<open>\<^verbatim>\<open>.default(d)\<close>: \<^verbatim>\<open>undefined\<close> is replaced by the default, which then goes through
  the inner schema; \<^verbatim>\<open>null\<close> is not \<^verbatim>\<open>undefined\<close>.\<close>

definition z_default :: "json \<Rightarrow> (json option \<Rightarrow> 'a parsed) \<Rightarrow> json option \<Rightarrow> 'a parsed" where
  "z_default d inner v = inner (case v of None \<Rightarrow> Some d | Some x \<Rightarrow> Some x)"

text \<open>\<^verbatim>\<open>.optional()\<close>: \<^verbatim>\<open>undefined\<close> is accepted as it is.\<close>

definition z_optional :: "(json option \<Rightarrow> 'a parsed) \<Rightarrow> json option \<Rightarrow> 'a option parsed" where
  "z_optional inner v =
     (case v of None \<Rightarrow> Inr None
      | Some x \<Rightarrow> (case inner (Some x) of Inl iss \<Rightarrow> Inl iss | Inr a \<Rightarrow> Inr (Some a)))"

text \<open>\<^verbatim>\<open>.nullable()\<close>: \<^verbatim>\<open>null\<close> is accepted as it is.\<close>

definition z_nullable :: "(json option \<Rightarrow> 'a parsed) \<Rightarrow> json option \<Rightarrow> 'a option parsed" where
  "z_nullable inner v =
     (case v of Some JNull \<Rightarrow> Inr None
      | _ \<Rightarrow> (case inner v of Inl iss \<Rightarrow> Inl iss | Inr a \<Rightarrow> Inr (Some a)))"

definition issues_of :: "'a parsed \<Rightarrow> zod_issue list" where
  "issues_of r = (case r of Inl iss \<Rightarrow> iss | Inr _ \<Rightarrow> [])"

subsection \<open>QueryRequestSchema\<close>

record QueryRequest =
  question :: string
  max_tokens :: int
  temperature :: rat

definition QueryRequestSchema :: "json \<Rightarrow> QueryRequest parsed" where
  "QueryRequestSchema body =
     (case body of
        JObj kv \<Rightarrow>
          (let q = z_string ''question'' (Some 1) (Some 2000) (member_of kv ''question'');
               m = z_default (JNum 1024) (z_int ''max_tokens'' (Some 100) (Some 4096))
                     (member_of kv ''max_tokens'');
               t = z_default (JNum (7 / 10)) (z_number ''temperature'' 0 1)
                     (member_of kv ''temperature'')
           in case (q, m, t) of
                (Inr qv, Inr mv, Inr tv) \<Rightarrow>
                  Inr \<lparr>question = qv, max_tokens = mv, temperature = tv\<rparr>
              | _ \<Rightarrow> Inl (issues_of q @ issues_of m @ issues_of t))
      | _ \<Rightarrow> Inl [Issue '''' invalid_type])"

subsection \<open>BrainCreateSchema\<close>

datatype provider = anthropic | openai | mistral

definition provider_of :: "string \<Rightarrow> provider" where
  "provider_of s = (if s = ''openai'' then openai else if s = ''mistral'' then mistral else anthropic)"

record BrainCreate =
  name :: string
  description :: "string option"
  llm_provider :: provider
  model :: string

definition BrainCreateSchema :: "json \<Rightarrow> BrainCreate parsed" where
  "BrainCreateSchema body =
     (case body of
        JObj kv \<Rightarrow>
          (let n = z_string ''name'' (Some 1) (Some 100) (member_of kv ''name'');
               d = z_optional (z_string ''description'' None (Some 500)) (member_of kv ''description'');
               p = z_default (JStr ''anthropic'')
                     (z_enum ''llm_provider'' [''anthropic'', ''openai'', ''mistral''])
                     (member_of kv ''llm_provider'');
               m = z_default (JStr ''claude-3-5-sonnet-20241022'') (z_string ''model'' None None)
                     (member_of kv ''model'')
           in case (n, d, p, m) of
                (Inr nv, Inr dv, Inr pv, Inr mv) \<Rightarrow>
                  Inr \<lparr>name = nv, description = dv, llm_provider = provider_of pv, model = mv\<rparr>
              | _ \<Rightarrow> Inl (issues_of n @ issues_of d @ issues_of p @ issues_of m))
      | _ \<Rightarrow> Inl [Issue '''' invalid_type])"

subsection \<open>The response schemas\<close>

text \<open>
  \<^verbatim>\<open>z.string().uuid()\<close> and \<^verbatim>\<open>z.string().datetime()\<close> test the string against regular
  expressions of the zod library; the two tests are parameters here.
\<close>

record formats =
  uuid :: "string \<Rightarrow> bool"
  datetime :: "string \<Rightarrow> bool"

definition z_format :: "string \<Rightarrow> (string \<Rightarrow> bool) \<Rightarrow> json option \<Rightarrow> string parsed" where
  "z_format p ok v =
     (case v of
        Some (JStr s) \<Rightarrow> if ok s then Inr s else Inl [Issue p invalid_string]
      | _ \<Rightarrow> Inl [Issue p invalid_type])"

text \<open>\<^verbatim>\<open>z.array(z.string())\<close>: every element that is not a string adds an issue.\<close>

definition z_strings :: "string \<Rightarrow> json option \<Rightarrow> string list parsed" where
  "z_strings p v =
     (case v of
        Some (JArr xs) \<Rightarrow>
          issues_or (concat (map (\<lambda>x. issues_of (z_string p None None (Some x))) xs))
            (concat (map (\<lambda>x. case x of JStr s \<Rightarrow> [s] | _ \<Rightarrow> []) xs))
      | _ \<Rightarrow> Inl [Issue p invalid_type])"

record BrainResponse =
  brain_id :: string
  brain_name :: string
  brain_description :: "string option"
  brain_llm_provider :: string
  brain_model :: string
  document_count :: int
  created_at :: string
  updated_at :: string

definition BrainResponseSchema :: "formats \<Rightarrow> json \<Rightarrow> BrainResponse parsed" where
  "BrainResponseSchema fmt data =
     (case data of
        JObj kv \<Rightarrow>
          (let i = z_format ''id'' (uuid fmt) (member_of kv ''id'');
               n = z_string ''name'' None None (member_of kv ''name'');
               d = z_nullable (z_string ''description'' None None) (member_of kv ''description'');
               p = z_string ''llm_provider'' None None (member_of kv ''llm_provider'');
               m = z_string ''model'' None None (member_of kv ''model'');
               c = z_int ''document_count'' (Some 0) None (member_of kv ''document_count'');
               ca = z_format ''created_at'' (datetime fmt) (member_of kv ''created_at'');
               ua = z_format ''updated_at'' (datetime fmt) (member_of kv ''updated_at'')
           in case (i, n, d, p, m, c, ca, ua) of
                (Inr iv, Inr nv, Inr dv, Inr pv, Inr mv, Inr cv, Inr cav, Inr uav) \<Rightarrow>
                  Inr \<lparr>brain_id = iv, brain_name = nv, brain_description = dv,
                       brain_llm_provider = pv, brain_model = mv, document_count = cv,
                       created_at = cav, updated_at = uav\<rparr>
              | _ \<Rightarrow> Inl (issues_of i @ issues_of n @ issues_of d @ issues_of p @ issues_of m
                          @ issues_of c @ issues_of ca @ issues_of ua))
      | _ \<Rightarrow> Inl [Issue '''' invalid_type])"

record QueryResponse =
  answer :: string
  sources :: "string list"
  tokens_used :: "int option"
  processing_time_ms :: int

definition QueryResponseSchema :: "json \<Rightarrow> QueryResponse parsed" where
  "QueryResponseSchema data =
     (case data of
        JObj kv \<Rightarrow>
          (let a = z_string ''answer'' None None (member_of kv ''answer'');
               s = z_default (JArr []) (z_strings ''sources'') (member_of kv ''sources'');
               t = z_nullable (z_int ''tokens_used'' None None) (member_of kv ''tokens_used'');
               m = z_int ''processing_time_ms'' None None (member_of kv ''processing_time_ms'')
           in case (a, s, t, m) of
                (Inr av, Inr sv, Inr tv, Inr mv) \<Rightarrow>
                  Inr \<lparr>answer = av, sources = sv, tokens_used = tv, processing_time_ms = mv\<rparr>
              | _ \<Rightarrow> Inl (issues_of a @ issues_of s @ issues_of t @ issues_of m))
      | _ \<Rightarrow> Inl [Issue '''' invalid_type])"

record HealthResponse =
  health_status :: string
  version :: string
  timestamp :: string

definition HealthResponseSchema :: "formats \<Rightarrow> json \<Rightarrow> HealthResponse parsed" where
  "HealthResponseSchema fmt data =
     (case data of
        JObj kv \<Rightarrow>
          (let s = z_enum ''status'' [''healthy'', ''degraded'', ''unhealthy''] (member_of kv ''status'');
               v = z_string ''version'' None None (member_of kv ''version'');
               t = z_format ''timestamp'' (datetime fmt) (member_of kv ''timestamp'')
           in case (s, v, t) of
                (Inr sv, Inr vv, Inr tv) \<Rightarrow>
                  Inr \<lparr>health_status = sv, version = vv, timestamp = tv\<rparr>
              | _ \<Rightarrow> Inl (issues_of s @ issues_of v @ issues_of t))
      | _ \<Rightarrow> Inl [Issue '''' invalid_type])"

text \<open>\<^verbatim>\<open>z.array(schema)\<close> of an object schema: the issues of every element are
  collected (each is kept with its path inside the element).\<close>

definition z_array :: "string \<Rightarrow> (json \<Rightarrow> 'a parsed) \<Rightarrow> json option \<Rightarrow> 'a list parsed" where
  "z_array p schema v =
     (case v of
        Some (JArr xs) \<Rightarrow>
          issues_or (concat (map (\<lambda>x. issues_of (schema x)) xs))
            (concat (map (\<lambda>x. case schema x of Inr a \<Rightarrow> [a] | Inl _ \<Rightarrow> []) xs))
      | _ \<Rightarrow> Inl [Issue p invalid_type])"

record BrainList =
  BrainList_brains :: "BrainResponse list"
  BrainList_total :: int

definition BrainListSchema :: "formats \<Rightarrow> json \<Rightarrow> BrainList parsed" where
  "BrainListSchema fmt data =
     (case data of
        JObj kv \<Rightarrow>
          (let b = z_array ''brains'' (BrainResponseSchema fmt) (member_of kv ''brains'');
               t = z_int ''total'' (Some 0) None (member_of kv ''total'')
           in case (b, t) of
                (Inr bv, Inr tv) \<Rightarrow> Inr \<lparr>BrainList_brains = bv, BrainList_total = tv\<rparr>
              | _ \<Rightarrow> Inl (issues_of b @ issues_of t))
      | _ \<Rightarrow> Inl [Issue '''' invalid_type])"

text \<open>\<^verbatim>\<open>z.number()\<close> with no check: any number, an infinity too.\<close>

datatype js_number = Finite rat | Infinite bool

definition z_any_number :: "string \<Rightarrow> json option \<Rightarrow> js_number parsed" where
  "z_any_number p v =
     (case v of
        Some (JNum r) \<Rightarrow> Inr (Finite r)
      | Some (JInf pos) \<Rightarrow> Inr (Infinite pos)
      | _ \<Rightarrow> Inl [Issue p invalid_type])"

record DocumentMetadata =
  doc_name :: string
  doc_size :: js_number
  doc_created_at :: string
  doc_modified_at :: string
  doc_path :: string

definition DocumentMetadataSchema :: "formats \<Rightarrow> json \<Rightarrow> DocumentMetadata parsed" where
  "DocumentMetadataSchema fmt data =
     (case data of
        JObj kv \<Rightarrow>
          (let n = z_string ''name'' None None (member_of kv ''name'');
               s = z_any_number ''size'' (member_of kv ''size'');
               c = z_format ''created_at'' (datetime fmt) (member_of kv ''created_at'');
               m = z_format ''modified_at'' (datetime fmt) (member_of kv ''modified_at'');
               p = z_string ''path'' None None (member_of kv ''path'')
           in case (n, s, c, m, p) of
                (Inr nv, Inr sv, Inr cv, Inr mv, Inr pv) \<Rightarrow>
                  Inr \<lparr>doc_name = nv, doc_size = sv, doc_created_at = cv, doc_modified_at = mv,
                       doc_path = pv\<rparr>
              | _ \<Rightarrow> Inl (issues_of n @ issues_of s @ issues_of c @ issues_of m @ issues_of p))
      | _ \<Rightarrow> Inl [Issue '''' invalid_type])"

record DocumentList =
  DocumentList_documents :: "DocumentMetadata list"
  DocumentList_total :: int

definition DocumentListSchema :: "formats \<Rightarrow> json \<Rightarrow> DocumentList parsed" where
  "DocumentListSchema fmt data =
     (case data of
        JObj kv \<Rightarrow>
          (let d = z_array ''documents'' (DocumentMetadataSchema fmt) (member_of kv ''documents'');
               t = z_int ''total'' (Some 0) None (member_of kv ''total'')
           in case (d, t) of
                (Inr dv, Inr tv) \<Rightarrow> Inr \<lparr>DocumentList_documents = dv, DocumentList_total = tv\<rparr>
              | _ \<Rightarrow> Inl (issues_of d @ issues_of t))
      | _ \<Rightarrow> Inl [Issue '''' invalid_type])"

section \<open>The client of the Python service (client/quivr-client.ts)\<close>

text \<open>
  The axios instance is the only way out of the gateway. A request is its method, the url
  the client hands to the instance (a string made by a template literal, before axios
  puts the base URL in front of it and parses the whole) and its body. It either is fulfilled
  with the response data, or is rejected with an \<^verbatim>\<open>AxiosError\<close>: its message, and its
  response (status and data) when the service answered with a status outside 2xx; a
  timeout (the instance has \<^verbatim>\<open>timeout: 60000\<close>) and a refused connection are rejections
  with no response. The service is a parameter: a function from the request to its outcome.
\<close>

datatype http_method = GET | POST | DELETE

record form_part =
  part_filename :: string
  part_contentType :: string
  part_stream :: string

datatype payload = NoBody | JsonBody json | FormBody "form_part list"

record request =
  req_method :: http_method
  req_url :: jsstring
  req_payload :: payload

datatype axios_result = Fulfilled json | Rejected string "(nat \<times> json) option"

type_synonym backend = "request \<Rightarrow> axios_result"

text \<open>The message of an error is a string: a text, \<^verbatim>\<open>String(v)\<close> of a detail that is
  not a string (\<open>Coerced v\<close>), or the JSON text of the issues of a \<^verbatim>\<open>ZodError\<close>.\<close>

datatype message = Text string | Coerced json | Issues_text "zod_issue list"

datatype QuivrClientError =
  QuivrClientError (message: message) (statusCode: "nat option") (details: "json option")

text \<open>\<^verbatim>\<open>errorData?.detail\<close>: only an object can have the member.\<close>

definition detail :: "json \<Rightarrow> json option" where
  "detail data = (case data of JObj kv \<Rightarrow> member_of kv ''detail'' | _ \<Rightarrow> None)"

text \<open>The rejection branch of \<^verbatim>\<open>setupInterceptors\<close>: the error that is thrown instead.\<close>

definition setupInterceptors :: "string \<Rightarrow> (nat \<times> json) option \<Rightarrow> QuivrClientError" where
  "setupInterceptors msg resp =
     QuivrClientError
       (case resp of
          None \<Rightarrow> Text msg
        | Some (st, data) \<Rightarrow>
            (case detail data of
               None \<Rightarrow> Text msg
             | Some JNull \<Rightarrow> Text msg
             | Some (JStr d) \<Rightarrow> Text d
             | Some v \<Rightarrow> Coerced v))
       (map_option fst resp)
       (map_option snd resp)"

text \<open>What a route handler can throw.\<close>

datatype thrown =
    ZodError "zod_issue list"
  | ClientError QuivrClientError
  | OtherError string

definition send :: "backend \<Rightarrow> request \<Rightarrow> thrown + json" where
  "send srv req =
     (case srv req of
        Fulfilled data \<Rightarrow> Inr data
      | Rejected msg resp \<Rightarrow> Inl (ClientError (setupInterceptors msg resp)))"

definition validated :: "(json \<Rightarrow> 'a parsed) \<Rightarrow> thrown + json \<Rightarrow> thrown + 'a" where
  "validated schema r =
     (case r of
        Inl e \<Rightarrow> Inl e
      | Inr data \<Rightarrow> (case schema data of Inl iss \<Rightarrow> Inl (ZodError iss) | Inr a \<Rightarrow> Inr a))"

definition health_request :: request where
  "health_request = \<lparr>req_method = GET, req_url = js ''/health'', req_payload = NoBody\<rparr>"

definition health :: "formats \<Rightarrow> backend \<Rightarrow> thrown + HealthResponse" where
  "health fmt srv = validated (HealthResponseSchema fmt) (send srv health_request)"

definition BrainCreate_json :: "BrainCreate \<Rightarrow> json" where
  "BrainCreate_json b =
     JObj ([(''name'', JStr (name b))]
           @ (case description b of None \<Rightarrow> [] | Some d \<Rightarrow> [(''description'', JStr d)])
           @ [(''llm_provider'',
                JStr (case llm_provider b of anthropic \<Rightarrow> ''anthropic'' | openai \<Rightarrow> ''openai''
                      | mistral \<Rightarrow> ''mistral'')),
              (''model'', JStr (model b))])"

definition createBrain_request :: "BrainCreate \<Rightarrow> request" where
  "createBrain_request b = \<lparr>req_method = POST, req_url = js ''/brains'',
      req_payload = JsonBody (BrainCreate_json b)\<rparr>"

definition createBrain :: "formats \<Rightarrow> backend \<Rightarrow> BrainCreate \<Rightarrow> thrown + BrainResponse" where
  "createBrain fmt srv b = validated (BrainResponseSchema fmt) (send srv (createBrain_request b))"

definition getBrain_request :: "string \<Rightarrow> request" where
  "getBrain_request brainId = \<lparr>req_method = GET, req_url = js (''/brains/'' @ brainId), req_payload = NoBody\<rparr>"

definition listBrains_request :: request where
  "listBrains_request = \<lparr>req_method = GET, req_url = js ''/brains'', req_payload = NoBody\<rparr>"

definition listBrains :: "formats \<Rightarrow> backend \<Rightarrow> thrown + BrainList" where
  "listBrains fmt srv = validated (BrainListSchema fmt) (send srv listBrains_request)"

definition getBrain :: "formats \<Rightarrow> backend \<Rightarrow> string \<Rightarrow> thrown + BrainResponse" where
  "getBrain fmt srv brainId = validated (BrainResponseSchema fmt) (send srv (getBrain_request brainId))"

text \<open>\<^verbatim>\<open>deleteBrain\<close> returns nothing: the data of the response is not looked at.\<close>

definition deleteBrain_request :: "string \<Rightarrow> request" where
  "deleteBrain_request brainId =
     \<lparr>req_method = DELETE, req_url = js (''/brains/'' @ brainId), req_payload = NoBody\<rparr>"

definition deleteBrain :: "backend \<Rightarrow> string \<Rightarrow> thrown + unit" where
  "deleteBrain srv brainId =
     (case send srv (deleteBrain_request brainId) of Inl e \<Rightarrow> Inl e | Inr data \<Rightarrow> Inr ())"

definition QueryRequest_json :: "QueryRequest \<Rightarrow> json" where
  "QueryRequest_json q =
     JObj [(''question'', JStr (question q)),
           (''max_tokens'', JNum (of_int (max_tokens q))),
           (''temperature'', JNum (temperature q))]"

definition queryBrain_request :: "string \<Rightarrow> QueryRequest \<Rightarrow> request" where
  "queryBrain_request brainId q =
     \<lparr>req_method = POST, req_url = js (''/brains/'' @ brainId @ ''/query''),
      req_payload = JsonBody (QueryRequest_json q)\<rparr>"

definition queryBrain :: "backend \<Rightarrow> string \<Rightarrow> QueryRequest \<Rightarrow> thrown + QueryResponse" where
  "queryBrain srv brainId q = validated QueryResponseSchema (send srv (queryBrain_request brainId q))"

definition uploadDocumentsWithFormData_request :: "string \<Rightarrow> form_part list \<Rightarrow> request" where
  "uploadDocumentsWithFormData_request brainId form =
     \<lparr>req_method = POST, req_url = js (''/brains/'' @ brainId @ ''/documents''),
      req_payload = FormBody form\<rparr>"

definition uploadDocumentsWithFormData :: "backend \<Rightarrow> string \<Rightarrow> form_part list \<Rightarrow> thrown + json" where
  "uploadDocumentsWithFormData srv brainId form =
     send srv (uploadDocumentsWithFormData_request brainId form)"

definition listDocuments_request :: "string \<Rightarrow> request" where
  "listDocuments_request brainId =
     \<lparr>req_method = GET, req_url = js (''/brains/'' @ brainId @ ''/documents''),
      req_payload = NoBody\<rparr>"

definition listDocuments :: "formats \<Rightarrow> backend \<Rightarrow> string \<Rightarrow> thrown + DocumentList" where
  "listDocuments fmt srv brainId =
     validated (DocumentListSchema fmt) (send srv (listDocuments_request brainId))"

section \<open>The error handler (middleware/error-handler.ts)\<close>

text \<open>A response is its status and its body; the bodies are the shapes the routes write.\<close>

datatype file_stats =
  FileStats (originalName: string) (stat_size: nat) (mimeType: string) (extension: string)
    (uploadedAt: string)

datatype body =
    Validation_error "zod_issue list"
  | Client_error message "json option"
  | Internal_server_error string
  | Health string string "message option" string
  | Brain BrainResponse
  | Brain_list BrainList
  | Document_list DocumentList
  | Document_metadata DocumentMetadata
  | Service_info
  | Answer QueryResponse
  | No_files_provided
  | Uploaded json "file_stats list"
  | No_content

record response =
  status :: nat
  body :: body

definition errorHandler :: "thrown \<Rightarrow> response" where
  "errorHandler error =
     (case error of
        ZodError errors \<Rightarrow> \<lparr>status = 400, body = Validation_error errors\<rparr>
      | ClientError e \<Rightarrow>
          \<lparr>status = (case statusCode e of Some c \<Rightarrow> c | None \<Rightarrow> 500),
           body = Client_error (message e) (details e)\<rparr>
      | OtherError msg \<Rightarrow> \<lparr>status = 500, body = Internal_server_error msg\<rparr>)"

section \<open>The routes (routes/brains.ts, routes/health.ts)\<close>

text \<open>
  A route returns the response it writes (its own, or the error handler's when it throws:
  \<^verbatim>\<open>asyncHandler\<close> forwards the rejection to \<^verbatim>\<open>next\<close>, and the error handler is the last
  middleware of the application) and the requests it has sent to the service, in order.
\<close>

type_synonym outcome = "response \<times> request list"

definition post_brains :: "formats \<Rightarrow> backend \<Rightarrow> json \<Rightarrow> outcome" where
  "post_brains fmt srv req_body =
     (case BrainCreateSchema req_body of
        Inl iss \<Rightarrow> (errorHandler (ZodError iss), [])
      | Inr brainData \<Rightarrow>
          (case createBrain fmt srv brainData of
             Inl e \<Rightarrow> (errorHandler e, [createBrain_request brainData])
           | Inr brain \<Rightarrow> (\<lparr>status = 201, body = Brain brain\<rparr>, [createBrain_request brainData])))"

definition get_brain :: "formats \<Rightarrow> backend \<Rightarrow> string \<Rightarrow> outcome" where
  "get_brain fmt srv brainId =
     (case getBrain fmt srv brainId of
        Inl e \<Rightarrow> (errorHandler e, [getBrain_request brainId])
      | Inr brain \<Rightarrow> (\<lparr>status = 200, body = Brain brain\<rparr>, [getBrain_request brainId]))"

definition get_brains :: "formats \<Rightarrow> backend \<Rightarrow> outcome" where
  "get_brains fmt srv =
     (case listBrains fmt srv of
        Inl e \<Rightarrow> (errorHandler e, [listBrains_request])
      | Inr brains \<Rightarrow> (\<lparr>status = 200, body = Brain_list brains\<rparr>, [listBrains_request]))"

definition delete_brain :: "backend \<Rightarrow> string \<Rightarrow> outcome" where
  "delete_brain srv brainId =
     (case deleteBrain srv brainId of
        Inl e \<Rightarrow> (errorHandler e, [deleteBrain_request brainId])
      | Inr _ \<Rightarrow> (\<lparr>status = 204, body = No_content\<rparr>, [deleteBrain_request brainId]))"

definition get_documents :: "formats \<Rightarrow> backend \<Rightarrow> string \<Rightarrow> outcome" where
  "get_documents fmt srv brainId =
     (case listDocuments fmt srv brainId of
        Inl e \<Rightarrow> (errorHandler e, [listDocuments_request brainId])
      | Inr result \<Rightarrow>
          (\<lparr>status = 200, body = Document_list result\<rparr>, [listDocuments_request brainId]))"

definition post_query :: "backend \<Rightarrow> string \<Rightarrow> json \<Rightarrow> outcome" where
  "post_query srv brainId req_body =
     (case QueryRequestSchema req_body of
        Inl iss \<Rightarrow> (errorHandler (ZodError iss), [])
      | Inr query \<Rightarrow>
          (case queryBrain srv brainId query of
             Inl e \<Rightarrow> (errorHandler e, [queryBrain_request brainId query])
           | Inr result \<Rightarrow> (\<lparr>status = 200, body = Answer result\<rparr>, [queryBrain_request brainId query])))"

text \<open>\<^verbatim>\<open>GET /health\<close>; \<open>now\<close> is \<^verbatim>\<open>new Date().toISOString()\<close>. The \<^verbatim>\<open>catch\<close> takes
  whatever \<^verbatim>\<open>quivrClient.health()\<close> throws; each of them is an \<^verbatim>\<open>Error\<close> with a message.\<close>

definition thrown_message :: "thrown \<Rightarrow> message" where
  "thrown_message e =
     (case e of
        ZodError iss \<Rightarrow> Issues_text iss
      | ClientError c \<Rightarrow> message c
      | OtherError m \<Rightarrow> Text m)"

definition get_health :: "formats \<Rightarrow> backend \<Rightarrow> string \<Rightarrow> outcome" where
  "get_health fmt srv now =
     (case health fmt srv of
        Inr pythonHealth \<Rightarrow>
          (\<lparr>status = 200, body = Health ''healthy'' (health_status pythonHealth) None now\<rparr>,
           [health_request])
      | Inl error \<Rightarrow>
          (\<lparr>status = 503, body = Health ''healthy'' ''unhealthy'' (Some (thrown_message error)) now\<rparr>,
           [health_request]))"

section \<open>The requests the specification accepts\<close>

text \<open>
  The query request as the specification words it: the question has 1 to 2000 characters,
  \<^verbatim>\<open>max_tokens\<close> is absent or an integer from 100 to 4096, \<^verbatim>\<open>temperature\<close> is absent or
  a number from 0 to 1.
\<close>

definition question_ok :: "json option \<Rightarrow> bool" where
  "question_ok v = (case v of Some (JStr q) \<Rightarrow> 1 \<le> length q \<and> length q \<le> 2000 | _ \<Rightarrow> False)"

definition max_tokens_ok :: "json option \<Rightarrow> bool" where
  "max_tokens_ok v =
     (case v of
        None \<Rightarrow> True
      | Some (JNum r) \<Rightarrow> is_integer r \<and> 100 \<le> r \<and> r \<le> 4096
      | _ \<Rightarrow> False)"

definition temperature_ok :: "json option \<Rightarrow> bool" where
  "temperature_ok v = (case v of None \<Rightarrow> True | Some (JNum t) \<Rightarrow> 0 \<le> t \<and> t \<le> 1 | _ \<Rightarrow> False)"

definition query_in_range :: "json \<Rightarrow> bool" where
  "query_in_range req_body =
     (case req_body of
        JObj kv \<Rightarrow>
          question_ok (member_of kv ''question'') \<and> max_tokens_ok (member_of kv ''max_tokens'')
          \<and> temperature_ok (member_of kv ''temperature'')
      | _ \<Rightarrow> False)"

text \<open>The query it stands for: the fields given, 1024 and 0.7 for the absent ones.\<close>

definition query_of :: "json \<Rightarrow> QueryRequest" where
  "query_of req_body =
     (case req_body of
        JObj kv \<Rightarrow>
          \<lparr>question = (case member_of kv ''question'' of Some (JStr q) \<Rightarrow> q | _ \<Rightarrow> []),
           max_tokens = (case member_of kv ''max_tokens'' of Some (JNum r) \<Rightarrow> \<lfloor>r\<rfloor> | _ \<Rightarrow> 1024),
           temperature = (case member_of kv ''temperature'' of Some (JNum t) \<Rightarrow> t | _ \<Rightarrow> 7 / 10)\<rparr>
      | _ \<Rightarrow> \<lparr>question = [], max_tokens = 1024, temperature = 7 / 10\<rparr>)"

text \<open>
  The brain creation request as the specification words it: the name is required and has
  1 to 100 characters, the description is optional and has at most 500, the provider is
  absent or one of the three names, the model is absent or a string.
\<close>

definition name_ok :: "json option \<Rightarrow> bool" where
  "name_ok v = (case v of Some (JStr n) \<Rightarrow> 1 \<le> length n \<and> length n \<le> 100 | _ \<Rightarrow> False)"

definition description_ok :: "json option \<Rightarrow> bool" where
  "description_ok v = (case v of None \<Rightarrow> True | Some (JStr d) \<Rightarrow> length d \<le> 500 | _ \<Rightarrow> False)"

definition llm_provider_ok :: "json option \<Rightarrow> bool" where
  "llm_provider_ok v =
     (case v of
        None \<Rightarrow> True
      | Some (JStr p) \<Rightarrow> p = ''anthropic'' \<or> p = ''openai'' \<or> p = ''mistral''
      | _ \<Rightarrow> False)"

definition model_ok :: "json option \<Rightarrow> bool" where
  "model_ok v = (case v of None \<Rightarrow> True | Some (JStr m) \<Rightarrow> True | _ \<Rightarrow> False)"

definition brain_in_range :: "json \<Rightarrow> bool" where
  "brain_in_range req_body =
     (case req_body of
        JObj kv \<Rightarrow>
          name_ok (member_of kv ''name'') \<and> description_ok (member_of kv ''description'')
          \<and> llm_provider_ok (member_of kv ''llm_provider'') \<and> model_ok (member_of kv ''model'')
      | _ \<Rightarrow> False)"

text \<open>The brain it stands for, with the defaults of the schema: the provider
  \<^verbatim>\<open>anthropic\<close>, and one model name whatever the provider.\<close>

definition brain_of :: "json \<Rightarrow> BrainCreate" where
  "brain_of req_body =
     (case req_body of
        JObj kv \<Rightarrow>
          \<lparr>name = (case member_of kv ''name'' of Some (JStr n) \<Rightarrow> n | _ \<Rightarrow> []),
           description = (case member_of kv ''description'' of Some (JStr d) \<Rightarrow> Some d | _ \<Rightarrow> None),
           llm_provider = (case member_of kv ''llm_provider'' of Some (JStr p) \<Rightarrow> provider_of p
                           | _ \<Rightarrow> anthropic),
           model = (case member_of kv ''model'' of Some (JStr m) \<Rightarrow> m
                    | _ \<Rightarrow> ''claude-3-5-sonnet-20241022'')\<rparr>
      | _ \<Rightarrow> \<lparr>name = [], description = None, llm_provider = anthropic,
              model = ''claude-3-5-sonnet-20241022''\<rparr>)"

section \<open>The upload middleware (middleware/upload.ts)\<close>

definition ALLOWED_MIME_TYPES :: "string list" where
  "ALLOWED_MIME_TYPES =
     [''application/pdf'', ''text/plain'', ''text/markdown'', ''application/msword'',
      ''application/vnd.openxmlformats-officedocument.wordprocessingml.document'',
      ''text/csv'', ''application/json'']"

definition ALLOWED_EXTENSIONS :: "string list" where
  "ALLOWED_EXTENSIONS = [''.pdf'', ''.txt'', ''.md'', ''.doc'', ''.docx'', ''.csv'', ''.json'']"

definition MAX_FILE_SIZE :: nat where
  "MAX_FILE_SIZE = 50 * 1024 * 1024"

definition MAX_FILES :: nat where
  "MAX_FILES = 20"

text \<open>The directory of the temporary files, \<^verbatim>\<open>uploads\<close> under the working directory of
  the process; paths are written relative to that directory.\<close>

definition uploadsDir :: string where
  "uploadsDir = ''uploads''"

text \<open>
  \<^verbatim>\<open>path.extname\<close> and \<^verbatim>\<open>path.basename\<close> of Node (posix). The last segment of the path
  is what follows its last slash, trailing slashes apart. The extension runs from the last
  dot of the segment to its end; it is empty when the segment has no dot, when its last dot
  is its first character, and when the segment is \<^verbatim>\<open>..\<close>.
\<close>

definition last_segment :: "string \<Rightarrow> string" where
  "last_segment p =
     rev (takeWhile (\<lambda>c. c \<noteq> CHR ''/'') (dropWhile (\<lambda>c. c = CHR ''/'') (rev p)))"

definition extname :: "string \<Rightarrow> string" where
  "extname p =
     (let seg = last_segment p;
          after = rev (takeWhile (\<lambda>c. c \<noteq> CHR ''.'') (rev seg))
      in if CHR ''.'' \<notin> set seg then []
         else if length seg = Suc (length after) \<or> seg = ''..'' then []
         else CHR ''.'' # after)"

text \<open>\<^verbatim>\<open>path.basename(p, ext)\<close>: the last segment, without \<open>ext\<close> when it ends with it and
  is not \<open>ext\<close> itself.\<close>

definition basename :: "string \<Rightarrow> string \<Rightarrow> string" where
  "basename p ext =
     (let seg = last_segment p
      in if ext \<noteq> [] \<and> seg \<noteq> ext \<and> length ext \<le> length seg
            \<and> drop (length seg - length ext) seg = ext
         then take (length seg - length ext) seg
         else seg)"

text \<open>
  \<^verbatim>\<open>toLowerCase\<close> is built into the language. In a string of ASCII characters it turns
  the letters A to Z into a to z and leaves every other character. What it makes of a
  string that holds a character beyond ASCII is fixed by the tables of Unicode, which are
  not written out here: it is the parameter \<open>beyond\<close>.
\<close>

definition ascii :: "char \<Rightarrow> bool" where
  "ascii c \<longleftrightarrow> (of_char c :: nat) < 128"

definition lower_char :: "char \<Rightarrow> char" where
  "lower_char c =
     (case map_of (zip ''ABCDEFGHIJKLMNOPQRSTUVWXYZ'' ''abcdefghijklmnopqrstuvwxyz'') c of
        Some l \<Rightarrow> l
      | None \<Rightarrow> c)"

definition toLowerCase :: "(string \<Rightarrow> string) \<Rightarrow> string \<Rightarrow> string" where
  "toLowerCase beyond s = (if list_all ascii s then map lower_char s else beyond s)"

fun join :: "string \<Rightarrow> string list \<Rightarrow> string" where
  "join sep [] = []"
| "join sep [x] = x"
| "join sep (x # y # ys) = x @ sep @ join sep (y # ys)"

text \<open>
  A file part of the multipart request as the busboy library under multer reports it: the
  field it is in, its \<^verbatim>\<open>filename\<close> (which becomes \<^verbatim>\<open>file.originalname\<close>) and its
  \<^verbatim>\<open>mimeType\<close> (which becomes \<^verbatim>\<open>file.mimetype\<close>), the number of bytes of its content, and
  the suffix \<^verbatim>\<open>${Date.now()}-${Math.round(Math.random() * 1e9)}\<close> drawn for it when it is
  stored. The two strings are not the text of the headers of the part: busboy has decoded
  them, has taken the directories off the file name and reports the type and the subtype of
  the content type without its parameters; an empty \<open>originalname\<close> is a part with no file
  name, or with an empty one.
\<close>

record file_part =
  fieldname :: string
  originalname :: string
  mimetype :: string
  content_size :: nat
  uniqueSuffix :: string

definition fileFilter :: "(string \<Rightarrow> string) \<Rightarrow> file_part \<Rightarrow> string + bool" where
  "fileFilter beyond file =
     (let ext = toLowerCase beyond (extname (originalname file));
          mimeType = mimetype file
      in if ext \<notin> set ALLOWED_EXTENSIONS
         then Inl (''File type not allowed: '' @ ext @ ''. Allowed types: ''
                   @ join '', '' ALLOWED_EXTENSIONS)
         else if mimeType \<notin> set ALLOWED_MIME_TYPES
         then Inl (''MIME type not allowed: '' @ mimeType)
         else Inr True)"

text \<open>The \<^verbatim>\<open>filename\<close> callback of the disk storage, under the \<^verbatim>\<open>destination\<close>.\<close>

definition storage_path :: "file_part \<Rightarrow> string" where
  "storage_path file =
     (let ext = extname (originalname file);
          name = basename (originalname file) ext
      in uploadsDir @ ''/'' @ name @ ''-'' @ uniqueSuffix file @ ext)"

text \<open>
  The disk: the paths that exist, and the paths whose \<^verbatim>\<open>unlink\<close> throws (a file that is
  busy, a directory without the permission). Writing a file always succeeds.
\<close>

record disk =
  present :: "string set"
  stuck :: "string set"

definition write_file :: "string \<Rightarrow> disk \<Rightarrow> disk" where
  "write_file p d = d\<lparr>present := insert p (present d)\<rparr>"

text \<open>\<^verbatim>\<open>fs.unlinkSync\<close>: \<open>None\<close> when it throws, the disk without the file otherwise.\<close>

definition unlinkSync :: "string \<Rightarrow> disk \<Rightarrow> disk option" where
  "unlinkSync p d =
     (if p \<in> stuck d \<or> p \<notin> present d then None else Some (d\<lparr>present := present d - {p}\<rparr>))"

text \<open>A file as multer hands it to the route.\<close>

record multer_file =
  file_originalname :: string
  file_mimetype :: string
  file_size :: nat
  file_path :: string

definition stored :: "file_part \<Rightarrow> multer_file" where
  "stored file =
     \<lparr>file_originalname = originalname file, file_mimetype = mimetype file,
      file_size = min (content_size file) MAX_FILE_SIZE, file_path = storage_path file\<rparr>"

text \<open>\<^verbatim>\<open>cleanupFiles\<close>: each file that exists is unlinked; an unlink that throws is
  logged and the loop goes on.\<close>

fun cleanupFiles :: "multer_file list \<Rightarrow> disk \<Rightarrow> disk" where
  "cleanupFiles [] d = d"
| "cleanupFiles (file # files) d =
     cleanupFiles files
       (if file_path file \<in> present d
        then (case unlinkSync (file_path file) d of Some d' \<Rightarrow> d' | None \<Rightarrow> d)
        else d)"

text \<open>\<^verbatim>\<open>getFileStats\<close>; \<open>now\<close> is \<^verbatim>\<open>new Date().toISOString()\<close>.\<close>

definition getFileStats :: "string \<Rightarrow> multer_file \<Rightarrow> file_stats" where
  "getFileStats now file =
     FileStats (file_originalname file) (file_size file) (file_mimetype file)
       (extname (file_originalname file)) now"

subsection \<open>What multer does with the parts\<close>

text \<open>
  The multer library is not part of the repository; this is its documented behaviour for
  \<^verbatim>\<open>upload.array('files', 20)\<close> with the disk storage, the file filter and the limits
  \<^verbatim>\<open>fileSize: MAX_FILE_SIZE\<close>, \<^verbatim>\<open>files: MAX_FILES\<close>. The file parts are taken in order.
  busboy counts them (\<open>seen\<close>), and the part that comes when it has counted
  \<^verbatim>\<open>MAX_FILES\<close> of them aborts the request. A part with no file name is counted and then
  dropped by multer (\<^verbatim>\<open>if (!filename) return fileStream.resume()\<close>): it reaches neither
  the filter nor the disk. A part with a name aborts the request when it is in another
  field than \<^verbatim>\<open>files\<close> or when that field has had its 20 files, and when the filter
  refuses it; a part the filter accepts is written to the disk, and aborts the request when
  its content is cut off at the limit of size. The request is read to its end (a connection
  that breaks half-way is not modelled). On abort multer removes every file it has stored
  for the request (an unlink that fails is recorded, and the file stays) and forwards the
  error; otherwise the stored files are handed to the route.
\<close>

text \<open>
  The limit of size is enforced by the busboy library under multer, on the content as it
  arrives: a content longer than the limit is cut off, and so is, from version 1 of that
  library on, a content exactly as long as the limit. The version is not known from the
  sources; \<open>cuts\<close> says whether a content of exactly the limit is cut off.
\<close>

definition over_limit :: "bool \<Rightarrow> nat \<Rightarrow> bool" where
  "over_limit cuts n \<longleftrightarrow> n > MAX_FILE_SIZE \<or> (cuts \<and> n = MAX_FILE_SIZE)"

datatype multer_code = LIMIT_FILE_SIZE | LIMIT_FILE_COUNT | LIMIT_UNEXPECTED_FILE

datatype upload_error = MulterError multer_code | FilterError string

fun removeUploadedFiles :: "multer_file list \<Rightarrow> disk \<Rightarrow> disk" where
  "removeUploadedFiles [] d = d"
| "removeUploadedFiles (file # files) d =
     removeUploadedFiles files
       (case unlinkSync (file_path file) d of Some d' \<Rightarrow> d' | None \<Rightarrow> d)"

fun upload_array :: "bool \<Rightarrow> (string \<Rightarrow> string) \<Rightarrow> nat \<Rightarrow> multer_file list \<Rightarrow> disk
    \<Rightarrow> file_part list \<Rightarrow> (upload_error + multer_file list) \<times> disk" where
  "upload_array cuts beyond seen uploaded d [] = (Inr uploaded, d)"
| "upload_array cuts beyond seen uploaded d (file # rest) =
     (if seen \<ge> MAX_FILES
      then (Inl (MulterError LIMIT_FILE_COUNT), removeUploadedFiles uploaded d)
      else if originalname file = []
      then upload_array cuts beyond (Suc seen) uploaded d rest
      else if fieldname file \<noteq> ''files'' \<or> length uploaded \<ge> MAX_FILES
      then (Inl (MulterError LIMIT_UNEXPECTED_FILE), removeUploadedFiles uploaded d)
      else (case fileFilter beyond file of
              Inl msg \<Rightarrow> (Inl (FilterError msg), removeUploadedFiles uploaded d)
            | Inr _ \<Rightarrow>
                (let d' = write_file (storage_path file) d
                 in if over_limit cuts (content_size file)
                    then (Inl (MulterError LIMIT_FILE_SIZE),
                          removeUploadedFiles (uploaded @ [stored file]) d')
                    else upload_array cuts beyond (Suc seen) (uploaded @ [stored file]) d' rest)))"

definition multer_message :: "multer_code \<Rightarrow> string" where
  "multer_message c =
     (case c of
        LIMIT_FILE_SIZE \<Rightarrow> ''File too large''
      | LIMIT_FILE_COUNT \<Rightarrow> ''Too many files''
      | LIMIT_UNEXPECTED_FILE \<Rightarrow> ''Unexpected field'')"

text \<open>Both errors are plain errors for the error handler: neither a \<^verbatim>\<open>ZodError\<close> nor a
  \<^verbatim>\<open>QuivrClientError\<close>.\<close>

definition upload_thrown :: "upload_error \<Rightarrow> thrown" where
  "upload_thrown e =
     (case e of MulterError c \<Rightarrow> OtherError (multer_message c) | FilterError msg \<Rightarrow> OtherError msg)"

subsection \<open>The upload route\<close>

definition form_of :: "multer_file list \<Rightarrow> form_part list" where
  "form_of files =
     map (\<lambda>file. \<lparr>part_filename = file_originalname file, part_contentType = file_mimetype file,
                   part_stream = file_path file\<rparr>) files"

text \<open>\<^verbatim>\<open>POST /brains/:id/documents\<close>: the response, the requests sent to the service, and
  the disk the request leaves.\<close>

definition post_documents :: "bool \<Rightarrow> (string \<Rightarrow> string) \<Rightarrow> backend \<Rightarrow> string \<Rightarrow> disk
    \<Rightarrow> string \<Rightarrow> file_part list \<Rightarrow> response \<times> request list \<times> disk" where
  "post_documents cuts beyond srv now d brainId parts =
     (case upload_array cuts beyond 0 [] d parts of
        (Inl e, d') \<Rightarrow> (errorHandler (upload_thrown e), [], d')
      | (Inr files, d') \<Rightarrow>
          if files = [] then (\<lparr>status = 400, body = No_files_provided\<rparr>, [], d')
          else (case uploadDocumentsWithFormData srv brainId (form_of files) of
                  Inr result \<Rightarrow>
                    (\<lparr>status = 201, body = Uploaded result (map (getFileStats now) files)\<rparr>,
                     [uploadDocumentsWithFormData_request brainId (form_of files)],
                     cleanupFiles files d')
                | Inl error \<Rightarrow>
                    (errorHandler error,
                     [uploadDocumentsWithFormData_request brainId (form_of files)],
                     cleanupFiles files d')))"

subsection \<open>The batches the route forwards\<close>

text \<open>
  The files of a request: its file parts that have a file name. A file as the
  specification wants it, as far as the code has it: in the field \<^verbatim>\<open>files\<close>, its
  extension (in lower case) and its content type in the allow-lists, its content not cut
  off at the limit of 50MB. A batch: at most 20 file parts, at least one of them a file,
  and every file as wanted.
\<close>

definition named :: "file_part list \<Rightarrow> file_part list" where
  "named parts = filter (\<lambda>part. originalname part \<noteq> []) parts"

definition acceptable :: "bool \<Rightarrow> (string \<Rightarrow> string) \<Rightarrow> file_part \<Rightarrow> bool" where
  "acceptable cuts beyond file \<longleftrightarrow>
     fieldname file = ''files''
     \<and> toLowerCase beyond (extname (originalname file)) \<in> set ALLOWED_EXTENSIONS
     \<and> mimetype file \<in> set ALLOWED_MIME_TYPES
     \<and> \<not> over_limit cuts (content_size file)"


section \<open>The service behind the gateway, from the specification\<close>

text \<open>
  The gateway of this repository forwards every operation to the Python service
  (\<^verbatim>\<open>quivr-service\<close>), which owns the brains, the documents and the streams. Its code is
  not among the sources; the definitions of this section follow the specification.
\<close>

text \<open>Modelled from the spec: the error taxonomy of section 7 (the service's exceptions
  are missing); a validation error names the offending input.\<close>

datatype service_error =
    ValidationError string
  | NotFoundError
  | EmptyBrainError
  | EngineUnavailableError
  | InternalError

text \<open>Modelled from the spec: the status of each error of the taxonomy of section 7 (the
  service's exception handlers are missing).\<close>

definition status_of :: "service_error \<Rightarrow> nat" where
  "status_of e =
     (case e of
        ValidationError _ \<Rightarrow> 400
      | NotFoundError \<Rightarrow> 404
      | EmptyBrainError \<Rightarrow> 400
      | EngineUnavailableError \<Rightarrow> 503
      | InternalError \<Rightarrow> 500)"

text \<open>Modelled from the spec: the detail of each error in the uniform error response
  (the service's error bodies are missing); section 8 gives the text for the empty brain.\<close>

definition detail_of :: "service_error \<Rightarrow> string" where
  "detail_of e =
     (case e of
        ValidationError what \<Rightarrow> ''Validation failed: '' @ what
      | NotFoundError \<Rightarrow> ''Not found''
      | EmptyBrainError \<Rightarrow> ''Brain has no documents''
      | EngineUnavailableError \<Rightarrow> ''Engine unavailable''
      | InternalError \<Rightarrow> ''Internal error'')"

text \<open>Modelled from the spec: the Brain entity of section 3 (the service's model of a
  brain is missing); the timestamps are instants of the service's clock.\<close>

record Brain =
  Brain_id :: string
  Brain_name :: string
  Brain_description :: "string option"
  Brain_llm_provider :: provider
  Brain_model :: string
  Brain_document_count :: int
  Brain_created_at :: nat
  Brain_updated_at :: nat

text \<open>Modelled from the spec: the Document entity of section 3 (the service's model of a
  document is missing).\<close>

record Document =
  Document_name :: string
  Document_size :: nat
  Document_mime :: string
  Document_created_at :: nat
  Document_modified_at :: nat

text \<open>Modelled from the spec: the calls of the Retrieval-Generation Engine of section 6
  (the engine is an external collaborator): indexing new documents, re-indexing a brain,
  answering a question.\<close>

datatype engine_call =
    Index string "string list"
  | Reindex string
  | Answer string QueryRequest

text \<open>Modelled from the spec: the state of the service (its registries are missing): the
  Brain Registry of section 4.1, the Document Store of section 6 keyed by brain id and
  file name (the documents of a brain in the order they were stored), the clock, and the
  calls made to the engine so far.\<close>

record service =
  brains :: "string \<rightharpoonup> Brain"
  documents :: "string \<Rightarrow> (string \<times> Document) list"
  clock :: nat
  engine_calls :: "engine_call list"

text \<open>Modelled from the spec: \<^verbatim>\<open>put\<close> of the Document Store of section 6 (the store is
  missing): keyed by the file name, so a second document under a name takes the place of
  the first.\<close>

definition put :: "string \<Rightarrow> Document \<Rightarrow> (string \<times> Document) list \<Rightarrow> (string \<times> Document) list" where
  "put k doc kvs =
     (if k \<in> set (map fst kvs)
      then map (\<lambda>(k', doc'). if k' = k then (k, doc) else (k', doc')) kvs
      else kvs @ [(k, doc)])"

text \<open>Modelled from the spec: the name a document is stored under, section 3: unique
  within its brain, collisions resolved by suffixing, never by overwriting (the service's
  naming is missing). The specification fixes no suffix; here the candidates are the name
  followed by 0, 1, 2, ... underscores, and the first one not taken is chosen.\<close>

definition resolve_name :: "string list \<Rightarrow> string \<Rightarrow> string" where
  "resolve_name taken n =
     (case find (\<lambda>c. c \<notin> set taken) (map (\<lambda>k. n @ replicate k CHR ''_'') [0..<Suc (length taken)]) of
        Some c \<Rightarrow> c
      | None \<Rightarrow> n)"

text \<open>Modelled from the spec: a file of an upload as the service receives it (the
  service's upload route is missing): its name, its declared content type, its size.\<close>

record upload_file =
  upload_name :: string
  upload_content_type :: string
  upload_size :: nat

text \<open>Modelled from the spec: the validation of a file of section 4.2 (the service's
  validation is missing): at most 50MB, extension and declared content type both in the
  allow-list of the seven types.\<close>

definition valid_upload :: "upload_file \<Rightarrow> bool" where
  "valid_upload f \<longleftrightarrow>
     upload_size f \<le> 50 * 1024 * 1024
     \<and> map lower_char (extname (upload_name f)) \<in> set ALLOWED_EXTENSIONS
     \<and> upload_content_type f \<in> set ALLOWED_MIME_TYPES"

text \<open>Modelled from the spec: \<^verbatim>\<open>recordDocumentChange(id, delta)\<close> of section 4.1 (the
  Brain Registry is missing): adjusts the count and the time of update together, and
  refuses a change that would make the count negative.\<close>

definition recordDocumentChange :: "string \<Rightarrow> int \<Rightarrow> service \<Rightarrow> service_error + service" where
  "recordDocumentChange brainId delta s =
     (case brains s brainId of
        None \<Rightarrow> Inl NotFoundError
      | Some b \<Rightarrow>
          if Brain_document_count b + delta < 0 then Inl InternalError
          else Inr (s\<lparr>brains := (brains s)(brainId \<mapsto>
                         b\<lparr>Brain_document_count := Brain_document_count b + delta,
                           Brain_updated_at := clock s\<rparr>)\<rparr>))"

text \<open>Modelled from the spec: persisting the files of a batch, section 4.2 (the Document
  Store Adapter is missing): one after the other, each under its resolved name.\<close>

fun persist :: "nat \<Rightarrow> upload_file list \<Rightarrow> (string \<times> Document) list \<Rightarrow> (string \<times> Document) list" where
  "persist now [] kvs = kvs"
| "persist now (f # fs) kvs =
     persist now fs
       (put (resolve_name (map fst kvs) (upload_name f))
          \<lparr>Document_name = resolve_name (map fst kvs) (upload_name f),
           Document_size = upload_size f, Document_mime = upload_content_type f,
           Document_created_at = now, Document_modified_at = now\<rparr>
          kvs)"

text \<open>Modelled from the spec: \<^verbatim>\<open>upload(brainId, files[])\<close> of section 4.2 (the Document
  Store Adapter is missing). The batch is validated first: 1 to 20 files, and the first
  invalid file fails the whole batch with a validation error naming it. The brain must
  exist. Then the files are persisted, the count grows by their number, and the engine is
  told to index them. A failure leaves the service as it was.\<close>

definition upload :: "string \<Rightarrow> upload_file list \<Rightarrow> service \<Rightarrow> (service_error + Document list) \<times> service" where
  "upload brainId files s =
     (if length files < 1 \<or> length files > 20 then (Inl (ValidationError ''files''), s)
      else (case find (\<lambda>f. \<not> valid_upload f) files of
              Some f \<Rightarrow> (Inl (ValidationError (upload_name f)), s)
            | None \<Rightarrow>
                (case brains s brainId of
                   None \<Rightarrow> (Inl NotFoundError, s)
                 | Some b \<Rightarrow>
                     (let now = Suc (clock s);
                          docs = persist now files (documents s brainId);
                          s1 = s\<lparr>documents := (documents s)(brainId := docs), clock := now\<rparr>
                      in case recordDocumentChange brainId (int (length files)) s1 of
                           Inl e \<Rightarrow> (Inl e, s)
                         | Inr s2 \<Rightarrow>
                             (Inr (map snd (drop (length (documents s brainId)) docs)),
                              s2\<lparr>engine_calls := engine_calls s2
                                    @ [Index brainId (map fst (drop (length (documents s brainId)) docs))]\<rparr>)))))"

text \<open>Modelled from the spec: \<^verbatim>\<open>delete(brainId, name)\<close> of section 4.2 (the Document
  Store Adapter is missing): fails with a not-found error when the brain or the document
  is absent; otherwise removes the document, takes one off the count and has the engine
  re-index the brain. A failure leaves the service as it was.\<close>

definition delete :: "string \<Rightarrow> string \<Rightarrow> service \<Rightarrow> (service_error + unit) \<times> service" where
  "delete brainId n s =
     (case brains s brainId of
        None \<Rightarrow> (Inl NotFoundError, s)
      | Some b \<Rightarrow>
          if n \<notin> set (map fst (documents s brainId)) then (Inl NotFoundError, s)
          else (let now = Suc (clock s);
                    docs = filter (\<lambda>(k, doc). k \<noteq> n) (documents s brainId);
                    s1 = s\<lparr>documents := (documents s)(brainId := docs), clock := now\<rparr>
                in case recordDocumentChange brainId (- 1) s1 of
                     Inl e \<Rightarrow> (Inl e, s)
                   | Inr s2 \<Rightarrow> (Inr (), s2\<lparr>engine_calls := engine_calls s2 @ [Reindex brainId]\<rparr>)))"

text \<open>Modelled from the spec: a sequence of upload and delete operations on the documents
  of the brains, as section 8 words its first property (the service is missing); an
  operation that fails is followed by the next one.\<close>

datatype operation = Upload string "upload_file list" | Delete string string

text \<open>Modelled from the spec: the effect of one operation of sections 4.1 and 4.2 on the
  service (which is missing), whether it succeeds or fails.\<close>

fun perform :: "operation \<Rightarrow> service \<Rightarrow> service" where
  "perform (Upload brainId files) s = snd (upload brainId files s)"
| "perform (Delete brainId n) s = snd (delete brainId n s)"

text \<open>Modelled from the spec: the operations of a sequence, one after the other, as
  section 8 has them in its first property (the service is missing).\<close>

fun perform_all :: "operation list \<Rightarrow> service \<Rightarrow> service" where
  "perform_all [] s = s"
| "perform_all (x # xs) s = perform_all xs (perform x s)"

text \<open>Modelled from the spec: invariants (a) and (b) of section 3, as a predicate on the
  state of the service (which is missing): the count of every brain is the number of the
  documents stored for it, no two of them share a name, and no document is stored for a
  brain that does not exist.\<close>

definition consistent :: "service \<Rightarrow> bool" where
  "consistent s \<longleftrightarrow>
     (\<forall>brainId.
        case brains s brainId of
          None \<Rightarrow> documents s brainId = []
        | Some b \<Rightarrow>
            distinct (map fst (documents s brainId))
            \<and> Brain_document_count b = int (length (documents s brainId)))"

text \<open>Modelled from the spec: the engine of section 6 as the query path sees it (an
  external collaborator): it answers, or it fails or times out.\<close>

type_synonym engine = "string \<Rightarrow> QueryRequest \<Rightarrow> QueryResponse option"

text \<open>Modelled from the spec: query execution, section 4.3 (the service's query route is
  missing): the brain must exist, it must have at least one document, and only then is
  the engine invoked; a failure of the engine is an engine-unavailable error. A query
  changes nothing but the record of the calls to the engine.\<close>

definition query :: "engine \<Rightarrow> string \<Rightarrow> QueryRequest \<Rightarrow> service
    \<Rightarrow> (service_error + QueryResponse) \<times> service" where
  "query eng brainId q s =
     (case brains s brainId of
        None \<Rightarrow> (Inl NotFoundError, s)
      | Some b \<Rightarrow>
          if Brain_document_count b > 0
          then (case eng brainId q of
                  None \<Rightarrow> Inl EngineUnavailableError
                | Some r \<Rightarrow> Inr r,
                s\<lparr>engine_calls := engine_calls s @ [Answer brainId q]\<rparr>)
          else (Inl EmptyBrainError, s))"

text \<open>Modelled from the spec: the answer of the service as the client of the gateway
  receives it (the service's routes are missing): the uniform error response of section
  6 with the status of the error, or the query response.\<close>

definition QueryResponse_json :: "QueryResponse \<Rightarrow> json" where
  "QueryResponse_json r =
     JObj [(''answer'', JStr (answer r)),
           (''sources'', JArr (map JStr (sources r))),
           (''tokens_used'', case tokens_used r of None \<Rightarrow> JNull | Some t \<Rightarrow> JNum (of_int t)),
           (''processing_time_ms'', JNum (of_int (processing_time_ms r)))]"

text \<open>Modelled from the spec: the HTTP outcome of a query of the service (the service's
  routes are missing).\<close>

definition http_outcome :: "service_error + QueryResponse \<Rightarrow> axios_result" where
  "http_outcome r =
     (case r of
        Inl e \<Rightarrow>
          Rejected ''Request failed''
            (Some (status_of e, JObj [(''error'', JStr (detail_of e)), (''detail'', JStr (detail_of e))]))
      | Inr a \<Rightarrow> Fulfilled (QueryResponse_json a))"

section \<open>The streaming query, from the specification\<close>

text \<open>Modelled from the spec: the events of a streamed query, section 4.5 (the streaming
  route of the service is missing): a fragment of text, the final list of citations, the
  end of the stream, an error with its message.\<close>

datatype event = Content string | Sources "string list" | Done | Error string

text \<open>Modelled from the spec: the states of a streamed query, section 4.5 (the Streaming
  Query Orchestrator is missing).\<close>

datatype stream_state = STARTED | EMITTING_CONTENT | EMITTING_SOURCES | DONE | ERROR

text \<open>Modelled from the spec: the transitions of section 4.5 (the Streaming Query
  Orchestrator is missing), each with the one event it emits: content zero or more times,
  then the sources, then the end; an error from any state that is not final. \<open>None\<close>:
  the state has no such transition.\<close>

fun step :: "stream_state \<Rightarrow> event \<Rightarrow> stream_state option" where
  "step STARTED (Content t) = Some EMITTING_CONTENT"
| "step EMITTING_CONTENT (Content t) = Some EMITTING_CONTENT"
| "step STARTED (Sources c) = Some EMITTING_SOURCES"
| "step EMITTING_CONTENT (Sources c) = Some EMITTING_SOURCES"
| "step EMITTING_SOURCES Done = Some DONE"
| "step STARTED (Error m) = Some ERROR"
| "step EMITTING_CONTENT (Error m) = Some ERROR"
| "step EMITTING_SOURCES (Error m) = Some ERROR"
| "step _ _ = None"

text \<open>Modelled from the spec: the state a sequence of events leads to, if the machine of
  section 4.5 allows it (the Streaming Query Orchestrator is missing).\<close>

fun run :: "stream_state \<Rightarrow> event list \<Rightarrow> stream_state option" where
  "run s [] = Some s"
| "run s (e # es) = (case step s e of None \<Rightarrow> None | Some s' \<Rightarrow> run s' es)"

text \<open>Modelled from the spec: what the streaming variant of the engine yields, section 6
  (the engine is an external collaborator): a fragment of text, or a failure.\<close>

datatype engine_yield = Fragment string | Raise string

text \<open>Modelled from the spec: the Streaming Query Orchestrator of section 4.5 (which is
  missing): one content event for each fragment in the order the engine yields them, then
  the sources and the end; when the engine fails, or the citations cannot be had, a
  well-formed error event ends the stream.\<close>

fun orchestrate :: "engine_yield list \<Rightarrow> string + string list \<Rightarrow> event list" where
  "orchestrate [] (Inr citations) = [Sources citations, Done]"
| "orchestrate [] (Inl m) = [Error m]"
| "orchestrate (Fragment t # ys) c = Content t # orchestrate ys c"
| "orchestrate (Raise m # ys) c = [Error m]"

text \<open>Modelled from the spec: the fragments the engine has generated before it fails, in
  the order of generation (the engine is an external collaborator).\<close>

fun generated :: "engine_yield list \<Rightarrow> string list" where
  "generated [] = []"
| "generated (Fragment t # ys) = t # generated ys"
| "generated (Raise m # ys) = []"

text \<open>Modelled from the spec: the events of type \<^verbatim>\<open>content\<close>, by the discriminated
  \<^verbatim>\<open>type\<close> field of section 4.5 (the event format of the service is missing).\<close>

fun is_content :: "event \<Rightarrow> bool" where
  "is_content (Content t) = True"
| "is_content _ = False"

text \<open>Modelled from the spec: the events of type \<^verbatim>\<open>sources\<close>, section 4.5 (the event
  format of the service is missing).\<close>

fun is_sources :: "event \<Rightarrow> bool" where
  "is_sources (Sources c) = True"
| "is_sources _ = False"

text \<open>Modelled from the spec: the terminal events of section 4.5, \<^verbatim>\<open>done\<close> and
  \<^verbatim>\<open>error\<close> (the event format of the service is missing).\<close>

fun is_terminal :: "event \<Rightarrow> bool" where
  "is_terminal Done = True"
| "is_terminal (Error m) = True"
| "is_terminal _ = False"

text \<open>Modelled from the spec: the texts of the content events of a stream, in the order
  they are emitted (the event format of the service is missing).\<close>

fun contents :: "event list \<Rightarrow> string list" where
  "contents [] = []"
| "contents (Content t # es) = t # contents es"
| "contents (e # es) = contents es"

text \<open>Modelled from the spec: the ways a stream can end once its content has been emitted,
  by the machine of section 4.5 (the Streaming Query Orchestrator is missing): the sources
  and the end; the sources and an error; an error.\<close>

definition ending :: "event list \<Rightarrow> stream_state \<Rightarrow> bool" where
  "ending rest st \<longleftrightarrow>
     (\<exists>c. rest = [Sources c, Done] \<and> st = DONE)
     \<or> (\<exists>c m. rest = [Sources c, Error m] \<and> st = ERROR)
     \<or> (\<exists>m. rest = [Error m] \<and> st = ERROR)"

section \<open>The operations on one document (client/quivr-client.ts)\<close>

text \<open>
  \<^verbatim>\<open>getDocument\<close> and \<^verbatim>\<open>deleteDocument\<close> put \<^verbatim>\<open>encodeURIComponent(documentName)\<close>
  into the url. What \<^verbatim>\<open>encodeURIComponent\<close> and the parser of URLs do depends on the
  code units of the strings, so in this section the id of the brain and the name of the
  document are lists of 16-bit code units.
\<close>

subsection \<open>\<^verbatim>\<open>encodeURIComponent\<close> and \<^verbatim>\<open>decodeURIComponent\<close> (ECMAScript)\<close>

text \<open>
  The two functions are built into the language; this is their definition in the
  ECMAScript specification (\<^verbatim>\<open>Encode\<close> with the unreserved set of
  \<^verbatim>\<open>encodeURIComponent\<close>, \<^verbatim>\<open>Decode\<close> with the empty reserved set). \<open>None\<close> is the
  \<^verbatim>\<open>URIError\<close> they throw.
\<close>

text \<open>The characters \<^verbatim>\<open>encodeURIComponent\<close> leaves as they are: the ASCII letters and
  digits and \<^verbatim>\<open>- _ . ! ~ * ' ( )\<close>.\<close>

definition unreserved :: "code_unit \<Rightarrow> bool" where
  "unreserved c \<longleftrightarrow>
     (let n = unat c
      in (48 \<le> n \<and> n \<le> 57) \<or> (65 \<le> n \<and> n \<le> 90) \<or> (97 \<le> n \<and> n \<le> 122)
         \<or> n \<in> {45, 95, 46, 33, 126, 42, 39, 40, 41})"

definition is_high_surrogate :: "code_unit \<Rightarrow> bool" where
  "is_high_surrogate c \<longleftrightarrow> 0xD800 \<le> unat c \<and> unat c \<le> 0xDBFF"

definition is_low_surrogate :: "code_unit \<Rightarrow> bool" where
  "is_low_surrogate c \<longleftrightarrow> 0xDC00 \<le> unat c \<and> unat c \<le> 0xDFFF"

text \<open>The code point of a surrogate pair.\<close>

definition pair_code_point :: "code_unit \<Rightarrow> code_unit \<Rightarrow> nat" where
  "pair_code_point h l = 0x10000 + (unat h - 0xD800) * 0x400 + (unat l - 0xDC00)"

text \<open>The octets of the UTF-8 encoding of a code point.\<close>

definition utf8 :: "nat \<Rightarrow> nat list" where
  "utf8 cp =
     (if cp < 0x80 then [cp]
      else if cp < 0x800 then [0xC0 + cp div 0x40, 0x80 + cp mod 0x40]
      else if cp < 0x10000
      then [0xE0 + cp div 0x1000, 0x80 + (cp div 0x40) mod 0x40, 0x80 + cp mod 0x40]
      else [0xF0 + cp div 0x40000, 0x80 + (cp div 0x1000) mod 0x40,
            0x80 + (cp div 0x40) mod 0x40, 0x80 + cp mod 0x40])"

text \<open>An upper-case hexadecimal digit, and an octet as \<^verbatim>\<open>%XX\<close>.\<close>

definition hex_digit :: "nat \<Rightarrow> code_unit" where
  "hex_digit n = (if n < 10 then of_nat (48 + n) else of_nat (55 + n))"

definition percent :: "nat list \<Rightarrow> jsstring" where
  "percent octets = concat (map (\<lambda>b. [0x25, hex_digit (b div 16), hex_digit (b mod 16)]) octets)"

fun encodeURIComponent :: "jsstring \<Rightarrow> jsstring option" where
  "encodeURIComponent [] = Some []"
| "encodeURIComponent (c # cs) =
     (if unreserved c then map_option ((#) c) (encodeURIComponent cs)
      else if is_high_surrogate c
      then (case cs of
              [] \<Rightarrow> None
            | l # rest \<Rightarrow>
                if is_low_surrogate l
                then map_option ((@) (percent (utf8 (pair_code_point c l)))) (encodeURIComponent rest)
                else None)
      else if is_low_surrogate c then None
      else map_option ((@) (percent (utf8 (unat c)))) (encodeURIComponent cs))"








subsection \<open>The two operations\<close>

text \<open>The request each operation asks the axios instance for; \<open>None\<close> when
  \<^verbatim>\<open>encodeURIComponent\<close> throws, before any request is made.\<close>

definition getDocument_request :: "jsstring \<Rightarrow> jsstring \<Rightarrow> request option" where
  "getDocument_request brainId documentName =
     map_option
       (\<lambda>e. \<lparr>req_method = GET, req_url = js ''/brains/'' @ brainId @ js ''/documents/'' @ e,
              req_payload = NoBody\<rparr>)
       (encodeURIComponent documentName)"

definition deleteDocument_request :: "jsstring \<Rightarrow> jsstring \<Rightarrow> request option" where
  "deleteDocument_request brainId documentName =
     map_option
       (\<lambda>e. \<lparr>req_method = DELETE, req_url = js ''/brains/'' @ brainId @ js ''/documents/'' @ e,
              req_payload = NoBody\<rparr>)
       (encodeURIComponent documentName)"

text \<open>The \<^verbatim>\<open>URIError\<close> is a plain error, with the message the engine gives it.\<close>

definition getDocument :: "formats \<Rightarrow> backend \<Rightarrow> jsstring \<Rightarrow> jsstring
    \<Rightarrow> thrown + DocumentMetadata" where
  "getDocument fmt srv brainId documentName =
     (case getDocument_request brainId documentName of
        None \<Rightarrow> Inl (OtherError ''URI malformed'')
      | Some req \<Rightarrow> validated (DocumentMetadataSchema fmt) (send srv req))"

definition deleteDocument :: "backend \<Rightarrow> jsstring \<Rightarrow> jsstring \<Rightarrow> thrown + unit" where
  "deleteDocument srv brainId documentName =
     (case deleteDocument_request brainId documentName of
        None \<Rightarrow> Inl (OtherError ''URI malformed'')
      | Some req \<Rightarrow> (case send srv req of Inl e \<Rightarrow> Inl e | Inr data \<Rightarrow> Inr ()))"

subsection \<open>The path of the request that leaves\<close>














subsection \<open>What the claim speaks of\<close>



section \<open>The routes of one document and the application (routes/brains.ts, app.ts)\<close>

definition get_document :: "formats \<Rightarrow> backend \<Rightarrow> jsstring \<Rightarrow> jsstring \<Rightarrow> outcome" where
  "get_document fmt srv brainId documentName =
     (case getDocument fmt srv brainId documentName of
        Inl e \<Rightarrow>
          (errorHandler e,
           case getDocument_request brainId documentName of None \<Rightarrow> [] | Some req \<Rightarrow> [req])
      | Inr result \<Rightarrow>
          (\<lparr>status = 200, body = Document_metadata result\<rparr>,
           case getDocument_request brainId documentName of None \<Rightarrow> [] | Some req \<Rightarrow> [req]))"

definition delete_document :: "backend \<Rightarrow> jsstring \<Rightarrow> jsstring \<Rightarrow> outcome" where
  "delete_document srv brainId documentName =
     (case deleteDocument srv brainId documentName of
        Inl e \<Rightarrow>
          (errorHandler e,
           case deleteDocument_request brainId documentName of None \<Rightarrow> [] | Some req \<Rightarrow> [req])
      | Inr _ \<Rightarrow>
          (\<lparr>status = 204, body = No_content\<rparr>,
           case deleteDocument_request brainId documentName of None \<Rightarrow> [] | Some req \<Rightarrow> [req]))"

text \<open>
  A request to the application, once Express has found its route and the body parsers
  have read its body: the route, with the parameters of the path and the body the handler
  reads. \<^verbatim>\<open>createApp\<close> mounts the health router, the brains router and, last, the error
  handler; the root endpoint answers by itself.
\<close>

datatype api_request =
    GetRoot
  | GetHealth
  | PostBrains json
  | GetBrains
  | GetBrain string
  | DeleteBrain string
  | PostDocuments string "file_part list"
  | PostQuery string json
  | GetDocuments string
  | GetDocument jsstring jsstring
  | DeleteDocument jsstring jsstring

text \<open>The answer of the application and the requests it has sent to the service. The
  parameters: whether a content of exactly the limit of size is cut off, \<^verbatim>\<open>toLowerCase\<close>
  beyond ASCII, the two formats of zod, the service, the time, the disk.\<close>

definition createApp :: "bool \<Rightarrow> (string \<Rightarrow> string) \<Rightarrow> formats \<Rightarrow> backend \<Rightarrow> string \<Rightarrow> disk
    \<Rightarrow> api_request \<Rightarrow> outcome" where
  "createApp cuts beyond fmt srv now d r =
     (case r of
        GetRoot \<Rightarrow> (\<lparr>status = 200, body = Service_info\<rparr>, [])
      | GetHealth \<Rightarrow> get_health fmt srv now
      | PostBrains req_body \<Rightarrow> post_brains fmt srv req_body
      | GetBrains \<Rightarrow> get_brains fmt srv
      | GetBrain brainId \<Rightarrow> get_brain fmt srv brainId
      | DeleteBrain brainId \<Rightarrow> delete_brain srv brainId
      | PostDocuments brainId parts \<Rightarrow>
          (case post_documents cuts beyond srv now d brainId parts of
             (res, sent, d') \<Rightarrow> (res, sent))
      | PostQuery brainId req_body \<Rightarrow> post_query srv brainId req_body
      | GetDocuments brainId \<Rightarrow> get_documents fmt srv brainId
      | GetDocument brainId documentName \<Rightarrow> get_document fmt srv brainId documentName
      | DeleteDocument brainId documentName \<Rightarrow> delete_document srv brainId documentName)"

subsection \<open>The status of an answer\<close>

text \<open>Whether the data of an answer of the service pass the schema the client applies to
  them for the route (three operations of the client apply none), and the status a route
  gives its own answer.\<close>

definition answer_passes :: "formats \<Rightarrow> api_request \<Rightarrow> json \<Rightarrow> bool" where
  "answer_passes fmt r data =
     (case r of
        GetHealth \<Rightarrow> \<not> isl (HealthResponseSchema fmt data)
      | PostBrains _ \<Rightarrow> \<not> isl (BrainResponseSchema fmt data)
      | GetBrains \<Rightarrow> \<not> isl (BrainListSchema fmt data)
      | GetBrain _ \<Rightarrow> \<not> isl (BrainResponseSchema fmt data)
      | PostQuery _ _ \<Rightarrow> \<not> isl (QueryResponseSchema data)
      | GetDocuments _ \<Rightarrow> \<not> isl (DocumentListSchema fmt data)
      | GetDocument _ _ \<Rightarrow> \<not> isl (DocumentMetadataSchema fmt data)
      | _ \<Rightarrow> True)"

definition success_status :: "api_request \<Rightarrow> nat" where
  "success_status r =
     (case r of
        PostBrains _ \<Rightarrow> 201
      | PostDocuments _ _ \<Rightarrow> 201
      | DeleteBrain _ \<Rightarrow> 204
      | DeleteDocument _ _ \<Rightarrow> 204
      | _ \<Rightarrow> 200)"

section \<open>Validation at the boundary\<close>

lemma Suc0_le_length: "Suc 0 \<le> length xs \<longleftrightarrow> xs \<noteq> []"
  by (cases xs) auto

lemma is_integer_1024: "is_integer 1024"
  by (simp add: is_integer_def)

lemma issues_or_Inl: "issues_or iss v = Inl iss' \<Longrightarrow> iss' \<noteq> []"
  by (auto simp: issues_or_def split: if_splits)

lemma z_string_Inl: "z_string p lo hi v = Inl iss \<Longrightarrow> iss \<noteq> []"
  by (auto simp: z_string_def dest: issues_or_Inl split: option.splits json.splits)

lemma z_int_Inl: "z_int p lo hi v = Inl iss \<Longrightarrow> iss \<noteq> []"
  by (auto simp: z_int_def dest: issues_or_Inl split: option.splits json.splits)

lemma z_number_Inl: "z_number p lo hi v = Inl iss \<Longrightarrow> iss \<noteq> []"
  by (auto simp: z_number_def dest: issues_or_Inl split: option.splits json.splits)

lemma z_enum_Inl: "z_enum p vals v = Inl iss \<Longrightarrow> iss \<noteq> []"
  by (auto simp: z_enum_def split: option.splits json.splits if_splits)

lemma isl_issues: "isl r \<Longrightarrow> (\<And>iss. r = Inl iss \<Longrightarrow> iss \<noteq> []) \<Longrightarrow> issues_of r \<noteq> []"
  by (cases r) (simp_all add: issues_of_def)

lemma case3_sum:
  "(case (a, b, c) of (Inr x, Inr y, Inr z) \<Rightarrow> f x y z | _ \<Rightarrow> g) =
     (if isl a \<or> isl b \<or> isl c then g else f (projr a) (projr b) (projr c))"
  by (cases a; cases b; cases c) simp_all

lemma case4_sum:
  "(case (a, b, c, d) of (Inr x, Inr y, Inr z, Inr w) \<Rightarrow> f x y z w | _ \<Rightarrow> g) =
     (if isl a \<or> isl b \<or> isl c \<or> isl d then g
      else f (projr a) (projr b) (projr c) (projr d))"
  by (cases a; cases b; cases c; cases d) simp_all

subsection \<open>The fields of a query request\<close>

lemma question_field:
  "question_ok v \<Longrightarrow> z_string ''question'' (Some 1) (Some 2000) v
       = Inr (case v of Some (JStr q) \<Rightarrow> q | _ \<Rightarrow> [])"
  "\<not> question_ok v \<Longrightarrow> isl (z_string ''question'' (Some 1) (Some 2000) v)"
  by (auto simp: question_ok_def z_string_def issues_or_def Suc0_le_length
        split: option.splits json.splits)

lemma max_tokens_field:
  "max_tokens_ok v \<Longrightarrow> z_default (JNum 1024) (z_int ''max_tokens'' (Some 100) (Some 4096)) v
       = Inr (case v of Some (JNum r) \<Rightarrow> \<lfloor>r\<rfloor> | _ \<Rightarrow> 1024)"
  "\<not> max_tokens_ok v \<Longrightarrow> isl (z_default (JNum 1024) (z_int ''max_tokens'' (Some 100) (Some 4096)) v)"
  by (auto simp: max_tokens_ok_def z_default_def z_int_def issues_or_def is_integer_1024
        split: option.splits json.splits)

lemma temperature_field:
  "temperature_ok v \<Longrightarrow> z_default (JNum (7 / 10)) (z_number ''temperature'' 0 1) v
       = Inr (case v of Some (JNum t) \<Rightarrow> t | _ \<Rightarrow> 7 / 10)"
  "\<not> temperature_ok v \<Longrightarrow> isl (z_default (JNum (7 / 10)) (z_number ''temperature'' 0 1) v)"
  by (auto simp: temperature_ok_def z_default_def z_number_def issues_or_def
        split: option.splits json.splits)

lemma QueryRequestSchema_accepts:
  assumes ok: "query_in_range req_body"
  shows "QueryRequestSchema req_body = Inr (query_of req_body)"
proof (cases req_body)
  case (JObj kv)
  from ok have "question_ok (member_of kv ''question'')" "max_tokens_ok (member_of kv ''max_tokens'')"
    "temperature_ok (member_of kv ''temperature'')"
    by (simp_all add: JObj query_in_range_def)
  then show ?thesis
    unfolding JObj QueryRequestSchema_def query_of_def
    by (simp only: question_field(1) max_tokens_field(1) temperature_field(1) Let_def
          json.case prod.case sum.case)
qed (use ok in \<open>simp_all add: query_in_range_def\<close>)

lemma QueryRequestSchema_rejects:
  assumes bad: "\<not> query_in_range req_body"
  shows "\<exists>iss. iss \<noteq> [] \<and> QueryRequestSchema req_body = Inl iss"
proof (cases req_body)
  case (JObj kv)
  let ?q = "z_string ''question'' (Some 1) (Some 2000) (member_of kv ''question'')"
  let ?m = "z_default (JNum 1024) (z_int ''max_tokens'' (Some 100) (Some 4096))
              (member_of kv ''max_tokens'')"
  let ?t = "z_default (JNum (7 / 10)) (z_number ''temperature'' 0 1) (member_of kv ''temperature'')"
  have some: "isl ?q \<or> isl ?m \<or> isl ?t"
    using bad question_field(2) max_tokens_field(2) temperature_field(2)
    unfolding JObj query_in_range_def by auto
  have q: "isl ?q \<Longrightarrow> issues_of ?q \<noteq> []"
    by (rule isl_issues) (auto dest: z_string_Inl)
  have m: "isl ?m \<Longrightarrow> issues_of ?m \<noteq> []"
    by (rule isl_issues) (auto simp: z_default_def dest: z_int_Inl)
  have t: "isl ?t \<Longrightarrow> issues_of ?t \<noteq> []"
    by (rule isl_issues) (auto simp: z_default_def dest: z_number_Inl)
  have ne: "issues_of ?q @ issues_of ?m @ issues_of ?t \<noteq> []"
    using some q m t by auto
  have eq: "QueryRequestSchema req_body = Inl (issues_of ?q @ issues_of ?m @ issues_of ?t)"
    using some unfolding JObj QueryRequestSchema_def Let_def case3_sum by simp
  show ?thesis
  proof (intro exI conjI)
    show "issues_of ?q @ issues_of ?m @ issues_of ?t \<noteq> []" by (rule ne)
    show "QueryRequestSchema req_body = Inl (issues_of ?q @ issues_of ?m @ issues_of ?t)"
      by (rule eq)
  qed
qed (simp_all add: QueryRequestSchema_def)

subsection \<open>The fields of a brain creation request\<close>

lemma name_field:
  "name_ok v \<Longrightarrow> z_string ''name'' (Some 1) (Some 100) v
       = Inr (case v of Some (JStr n) \<Rightarrow> n | _ \<Rightarrow> [])"
  "\<not> name_ok v \<Longrightarrow> isl (z_string ''name'' (Some 1) (Some 100) v)"
  by (auto simp: name_ok_def z_string_def issues_or_def Suc0_le_length
        split: option.splits json.splits)

lemma description_field:
  "description_ok v \<Longrightarrow> z_optional (z_string ''description'' None (Some 500)) v
       = Inr (case v of Some (JStr d) \<Rightarrow> Some d | _ \<Rightarrow> None)"
  "\<not> description_ok v \<Longrightarrow> isl (z_optional (z_string ''description'' None (Some 500)) v)"
  by (auto simp: description_ok_def z_optional_def z_string_def issues_or_def
        split: option.splits json.splits)

lemma llm_provider_field:
  "llm_provider_ok v \<Longrightarrow>
     z_default (JStr ''anthropic'') (z_enum ''llm_provider'' [''anthropic'', ''openai'', ''mistral'']) v
       = Inr (case v of Some (JStr p) \<Rightarrow> p | _ \<Rightarrow> ''anthropic'')"
  "\<not> llm_provider_ok v \<Longrightarrow>
     isl (z_default (JStr ''anthropic'')
            (z_enum ''llm_provider'' [''anthropic'', ''openai'', ''mistral'']) v)"
  by (auto simp: llm_provider_ok_def z_default_def z_enum_def split: option.splits json.splits)

lemma model_field:
  "model_ok v \<Longrightarrow> z_default (JStr ''claude-3-5-sonnet-20241022'') (z_string ''model'' None None) v
       = Inr (case v of Some (JStr m) \<Rightarrow> m | _ \<Rightarrow> ''claude-3-5-sonnet-20241022'')"
  "\<not> model_ok v \<Longrightarrow>
     isl (z_default (JStr ''claude-3-5-sonnet-20241022'') (z_string ''model'' None None) v)"
  by (auto simp: model_ok_def z_default_def z_string_def issues_or_def
        split: option.splits json.splits)

lemma provider_of_field:
  "llm_provider_ok v \<Longrightarrow>
     provider_of (case v of Some (JStr p) \<Rightarrow> p | _ \<Rightarrow> ''anthropic'')
       = (case v of Some (JStr p) \<Rightarrow> provider_of p | _ \<Rightarrow> anthropic)"
  by (auto simp: llm_provider_ok_def provider_of_def split: option.splits json.splits)

lemma BrainCreateSchema_accepts:
  assumes ok: "brain_in_range req_body"
  shows "BrainCreateSchema req_body = Inr (brain_of req_body)"
proof (cases req_body)
  case (JObj kv)
  from ok have "name_ok (member_of kv ''name'')" "description_ok (member_of kv ''description'')"
    "llm_provider_ok (member_of kv ''llm_provider'')" "model_ok (member_of kv ''model'')"
    by (simp_all add: JObj brain_in_range_def)
  then show ?thesis
    unfolding JObj BrainCreateSchema_def brain_of_def
    by (simp only: name_field(1) description_field(1) llm_provider_field(1) model_field(1)
          provider_of_field Let_def json.case prod.case sum.case)
qed (use ok in \<open>simp_all add: brain_in_range_def\<close>)

lemma BrainCreateSchema_rejects:
  assumes bad: "\<not> brain_in_range req_body"
  shows "\<exists>iss. iss \<noteq> [] \<and> BrainCreateSchema req_body = Inl iss"
proof (cases req_body)
  case (JObj kv)
  let ?n = "z_string ''name'' (Some 1) (Some 100) (member_of kv ''name'')"
  let ?d = "z_optional (z_string ''description'' None (Some 500)) (member_of kv ''description'')"
  let ?p = "z_default (JStr ''anthropic'')
              (z_enum ''llm_provider'' [''anthropic'', ''openai'', ''mistral''])
              (member_of kv ''llm_provider'')"
  let ?m = "z_default (JStr ''claude-3-5-sonnet-20241022'') (z_string ''model'' None None)
              (member_of kv ''model'')"
  have some: "isl ?n \<or> isl ?d \<or> isl ?p \<or> isl ?m"
    using bad name_field(2) description_field(2) llm_provider_field(2) model_field(2)
    unfolding JObj brain_in_range_def by auto
  have n: "isl ?n \<Longrightarrow> issues_of ?n \<noteq> []"
    by (rule isl_issues) (auto dest: z_string_Inl)
  have d: "isl ?d \<Longrightarrow> issues_of ?d \<noteq> []"
    by (rule isl_issues) (auto simp: z_optional_def dest: z_string_Inl split: option.splits sum.splits)
  have p: "isl ?p \<Longrightarrow> issues_of ?p \<noteq> []"
    by (rule isl_issues) (auto simp: z_default_def dest: z_enum_Inl)
  have m: "isl ?m \<Longrightarrow> issues_of ?m \<noteq> []"
    by (rule isl_issues) (auto simp: z_default_def dest: z_string_Inl)
  have ne: "issues_of ?n @ issues_of ?d @ issues_of ?p @ issues_of ?m \<noteq> []"
    using some n d p m by auto
  have eq: "BrainCreateSchema req_body
      = Inl (issues_of ?n @ issues_of ?d @ issues_of ?p @ issues_of ?m)"
    using some unfolding JObj BrainCreateSchema_def Let_def case4_sum by simp
  show ?thesis
  proof (intro exI conjI)
    show "issues_of ?n @ issues_of ?d @ issues_of ?p @ issues_of ?m \<noteq> []" by (rule ne)
    show "BrainCreateSchema req_body
      = Inl (issues_of ?n @ issues_of ?d @ issues_of ?p @ issues_of ?m)"
      by (rule eq)
  qed
qed (simp_all add: BrainCreateSchema_def)

section \<open>The query route\<close>

text \<open>
  C5. A query request is accepted exactly when its question has 1 to 2000 characters, its
  \<^verbatim>\<open>max_tokens\<close> is absent or an integer from 100 to 4096 and its \<^verbatim>\<open>temperature\<close> is
  absent or a number from 0 to 1; the accepted request carries 1024 and 0.7 for the absent
  fields and is the one request sent to the service. Any other body is answered with status
  400 and the issues of the validation, and nothing is sent to the service: the route has
  no state of its own, and the rejection comes before the only call it makes.
\<close>

theorem query_request_validated_at_the_boundary:
  "(query_in_range req_body \<longrightarrow>
      QueryRequestSchema req_body = Inr (query_of req_body)
      \<and> snd (post_query srv brainId req_body) = [queryBrain_request brainId (query_of req_body)])
   \<and> (\<not> query_in_range req_body \<longrightarrow>
        (\<exists>iss. iss \<noteq> [] \<and> QueryRequestSchema req_body = Inl iss
           \<and> post_query srv brainId req_body = (\<lparr>status = 400, body = Validation_error iss\<rparr>, [])))"
proof (intro conjI impI)
  assume ok: "query_in_range req_body"
  then show p: "QueryRequestSchema req_body = Inr (query_of req_body)"
    by (rule QueryRequestSchema_accepts)
  show "snd (post_query srv brainId req_body) = [queryBrain_request brainId (query_of req_body)]"
    by (simp add: post_query_def p split: sum.splits)
next
  assume "\<not> query_in_range req_body"
  then obtain iss where iss: "iss \<noteq> []" "QueryRequestSchema req_body = Inl iss"
    using QueryRequestSchema_rejects by blast
  show "\<exists>iss. iss \<noteq> [] \<and> QueryRequestSchema req_body = Inl iss
           \<and> post_query srv brainId req_body = (\<lparr>status = 400, body = Validation_error iss\<rparr>, [])"
  proof (intro exI conjI)
    show "iss \<noteq> []" by (rule iss(1))
    show "QueryRequestSchema req_body = Inl iss" by (rule iss(2))
    show "post_query srv brainId req_body = (\<lparr>status = 400, body = Validation_error iss\<rparr>, [])"
      by (simp add: post_query_def iss(2) errorHandler_def)
  qed
qed

text \<open>C5, at a question alone (accepted, with the defaults) and at 99 tokens (rejected).\<close>

theorem query_request_validated_at_the_boundary_witness:
  "query_in_range (JObj [(''question'', JStr ''What is a brain?'')])
   \<and> QueryRequestSchema (JObj [(''question'', JStr ''What is a brain?'')])
       = Inr \<lparr>question = ''What is a brain?'', max_tokens = 1024, temperature = 7 / 10\<rparr>
   \<and> \<not> query_in_range (JObj [(''question'', JStr ''What is a brain?''), (''max_tokens'', JNum 99)])
   \<and> post_query (\<lambda>r. Fulfilled JNull) ''b1''
        (JObj [(''question'', JStr ''What is a brain?''), (''max_tokens'', JNum 99)])
       = (\<lparr>status = 400, body = Validation_error [Issue ''max_tokens'' too_small]\<rparr>, [])"
  using query_request_validated_at_the_boundary
          [of "JObj [(''question'', JStr ''What is a brain?'')]" "\<lambda>r. Fulfilled JNull" "''b1''"]
        query_request_validated_at_the_boundary
          [of "JObj [(''question'', JStr ''What is a brain?''), (''max_tokens'', JNum 99)]"
              "\<lambda>r. Fulfilled JNull" "''b1''"]
  by (simp add: query_in_range_def question_ok_def max_tokens_ok_def temperature_ok_def
        query_of_def member_of_def is_integer_def QueryRequestSchema_def
        z_string_def z_int_def z_number_def z_default_def issues_or_def issues_of_def)

section \<open>The brain creation route\<close>

text \<open>
  C8, as stated, fails on the default of the model: the schema has one default,
  \<^verbatim>\<open>claude-3-5-sonnet-20241022\<close>, and a brain created for \<^verbatim>\<open>openai\<close> or for \<^verbatim>\<open>mistral\<close>
  with no model gets this model of Anthropic.
\<close>

theorem brain_default_model_counterexample:
  "BrainCreateSchema (JObj [(''name'', JStr ''Docs''), (''llm_provider'', JStr ''openai'')])
     = Inr \<lparr>name = ''Docs'', description = None, llm_provider = openai,
            model = ''claude-3-5-sonnet-20241022''\<rparr>
   \<and> BrainCreateSchema (JObj [(''name'', JStr ''Docs''), (''llm_provider'', JStr ''mistral'')])
     = Inr \<lparr>name = ''Docs'', description = None, llm_provider = mistral,
            model = ''claude-3-5-sonnet-20241022''\<rparr>
   \<and> BrainCreateSchema (JObj [(''name'', JStr ''Docs''), (''llm_provider'', JStr ''anthropic'')])
     = Inr \<lparr>name = ''Docs'', description = None, llm_provider = anthropic,
            model = ''claude-3-5-sonnet-20241022''\<rparr>"
  by (simp add: BrainCreateSchema_def member_of_def z_string_def z_optional_def z_default_def
        z_enum_def issues_or_def provider_of_def)

text \<open>
  C8, amended. Brain creation validates its input: the name is required and has 1 to 100
  characters, the description is optional and has at most 500, the provider is one of
  \<^verbatim>\<open>anthropic\<close>, \<^verbatim>\<open>openai\<close>, \<^verbatim>\<open>mistral\<close> and is \<^verbatim>\<open>anthropic\<close> when absent, and the
  model is \<^verbatim>\<open>claude-3-5-sonnet-20241022\<close> when absent, whatever the provider; the brain
  of an accepted request is the one request sent to the service, and any other body is
  answered with status 400 and the issues of the validation, nothing being sent.
\<close>

theorem brain_creation_validated:
  "(brain_in_range req_body \<longrightarrow>
      BrainCreateSchema req_body = Inr (brain_of req_body)
      \<and> snd (post_brains fmt srv req_body) = [createBrain_request (brain_of req_body)])
   \<and> (\<not> brain_in_range req_body \<longrightarrow>
        (\<exists>iss. iss \<noteq> [] \<and> BrainCreateSchema req_body = Inl iss
           \<and> post_brains fmt srv req_body = (\<lparr>status = 400, body = Validation_error iss\<rparr>, [])))"
proof (intro conjI impI)
  assume ok: "brain_in_range req_body"
  then show p: "BrainCreateSchema req_body = Inr (brain_of req_body)"
    by (rule BrainCreateSchema_accepts)
  show "snd (post_brains fmt srv req_body) = [createBrain_request (brain_of req_body)]"
    by (simp add: post_brains_def p split: sum.splits)
next
  assume "\<not> brain_in_range req_body"
  then obtain iss where iss: "iss \<noteq> []" "BrainCreateSchema req_body = Inl iss"
    using BrainCreateSchema_rejects by blast
  show "\<exists>iss. iss \<noteq> [] \<and> BrainCreateSchema req_body = Inl iss
           \<and> post_brains fmt srv req_body = (\<lparr>status = 400, body = Validation_error iss\<rparr>, [])"
  proof (intro exI conjI)
    show "iss \<noteq> []" by (rule iss(1))
    show "BrainCreateSchema req_body = Inl iss" by (rule iss(2))
    show "post_brains fmt srv req_body = (\<lparr>status = 400, body = Validation_error iss\<rparr>, [])"
      by (simp add: post_brains_def iss(2) errorHandler_def)
  qed
qed

text \<open>C8, amended, at a name alone (accepted, with the defaults) and at an unknown provider
  (rejected).\<close>

theorem brain_creation_validated_witness:
  "brain_in_range (JObj [(''name'', JStr ''Docs'')])
   \<and> BrainCreateSchema (JObj [(''name'', JStr ''Docs'')])
       = Inr \<lparr>name = ''Docs'', description = None, llm_provider = anthropic,
              model = ''claude-3-5-sonnet-20241022''\<rparr>
   \<and> \<not> brain_in_range (JObj [(''name'', JStr ''Docs''), (''llm_provider'', JStr ''gemini'')])
   \<and> post_brains \<lparr>uuid = (\<lambda>s. True), datetime = (\<lambda>s. True)\<rparr> (\<lambda>r. Fulfilled JNull)
        (JObj [(''name'', JStr ''Docs''), (''llm_provider'', JStr ''gemini'')])
       = (\<lparr>status = 400, body = Validation_error [Issue ''llm_provider'' invalid_enum_value]\<rparr>, [])"
  using brain_creation_validated
          [of "JObj [(''name'', JStr ''Docs'')]" "\<lparr>uuid = (\<lambda>s. True), datetime = (\<lambda>s. True)\<rparr>"
              "\<lambda>r. Fulfilled JNull"]
        brain_creation_validated
          [of "JObj [(''name'', JStr ''Docs''), (''llm_provider'', JStr ''gemini'')]"
              "\<lparr>uuid = (\<lambda>s. True), datetime = (\<lambda>s. True)\<rparr>" "\<lambda>r. Fulfilled JNull"]
  by (simp add: brain_in_range_def name_ok_def description_ok_def llm_provider_ok_def model_ok_def
        brain_of_def member_of_def BrainCreateSchema_def z_string_def z_optional_def
        z_default_def z_enum_def issues_or_def issues_of_def)

section \<open>The status of an error\<close>

lemma send_Rejected:
  "srv req = Rejected msg resp \<Longrightarrow> send srv req = Inl (ClientError (setupInterceptors msg resp))"
  by (simp add: send_def)

lemma status_ClientError:
  "status (errorHandler (ClientError (setupInterceptors msg resp)))
     = (case resp of Some (c, x) \<Rightarrow> c | None \<Rightarrow> 500)"
  by (simp add: errorHandler_def setupInterceptors_def split: option.splits prod.splits)

text \<open>
  C7, as stated, fails where the service does not answer: the rejection of a request that
  timed out has no response, the error thrown has no status code, and the error handler
  falls back to 500, not to 503.
\<close>

theorem engine_timeout_counterexample:
  "status (fst (post_query (\<lambda>r. Rejected ''timeout of 60000ms exceeded'' None) ''b1''
                  (JObj [(''question'', JStr ''What is a brain?'')]))) = 500
   \<and> status (fst (post_query (\<lambda>r. Rejected ''timeout of 60000ms exceeded'' None) ''b1''
                  (JObj [(''question'', JStr ''What is a brain?'')]))) \<noteq> 503"
  by (simp add: post_query_def QueryRequestSchema_def member_of_def z_string_def z_int_def
        z_number_def z_default_def issues_or_def is_integer_def queryBrain_def validated_def
        send_def errorHandler_def setupInterceptors_def)

lemma validated_send:
  "validated schema (send srv req)
     = (case srv req of
          Rejected msg resp \<Rightarrow> Inl (ClientError (setupInterceptors msg resp))
        | Fulfilled data \<Rightarrow>
            (case schema data of Inl iss \<Rightarrow> Inl (ZodError iss) | Inr a \<Rightarrow> Inr a))"
  by (simp add: validated_def send_def split: axios_result.splits)

lemma status_ZodError: "status (errorHandler (ZodError iss)) = 400"
  by (simp add: errorHandler_def)

lemma status_OtherError: "status (errorHandler (OtherError text)) = 500"
  by (simp add: errorHandler_def)

lemma createApp_sends_at_most_one:
  "snd (createApp cuts beyond fmt srv now dsk r) = []
   \<or> (\<exists>req. snd (createApp cuts beyond fmt srv now dsk r) = [req])"
proof (cases r)
  case (PostDocuments brainId parts)
  then show ?thesis
    by (simp add: createApp_def post_documents_def split: prod.splits sum.splits)
qed (simp_all add: createApp_def get_health_def post_brains_def get_brains_def get_brain_def
       delete_brain_def post_query_def get_documents_def get_document_def delete_document_def
       split: sum.splits option.splits)

lemma createApp_rejected:
  assumes "snd (createApp cuts beyond fmt srv now dsk r) = [req]"
    and "srv req = Rejected msg resp"
  shows "status (fst (createApp cuts beyond fmt srv now dsk r))
           = (if r = GetHealth then 503 else case resp of Some (c, x) \<Rightarrow> c | None \<Rightarrow> 500)"
proof (cases r)
  case GetRoot
  with assms show ?thesis by (simp add: createApp_def)
next
  case GetHealth
  with assms show ?thesis
    by (auto simp: createApp_def get_health_def health_def validated_send split: sum.splits)
next
  case (PostBrains req_body)
  with assms show ?thesis
    by (auto simp: createApp_def post_brains_def createBrain_def validated_send
          status_ClientError split: sum.splits)
next
  case GetBrains
  with assms show ?thesis
    by (auto simp: createApp_def get_brains_def listBrains_def validated_send
          status_ClientError split: sum.splits)
next
  case (GetBrain brainId)
  with assms show ?thesis
    by (auto simp: createApp_def get_brain_def getBrain_def validated_send
          status_ClientError split: sum.splits)
next
  case (DeleteBrain brainId)
  with assms show ?thesis
    by (auto simp: createApp_def delete_brain_def deleteBrain_def send_def
          status_ClientError split: sum.splits)
next
  case (PostDocuments brainId parts)
  with assms show ?thesis
    by (auto simp: createApp_def post_documents_def uploadDocumentsWithFormData_def send_def
          status_ClientError split: prod.splits sum.splits if_splits)
next
  case (PostQuery brainId req_body)
  with assms show ?thesis
    by (auto simp: createApp_def post_query_def queryBrain_def validated_send
          status_ClientError split: sum.splits)
next
  case (GetDocuments brainId)
  with assms show ?thesis
    by (auto simp: createApp_def get_documents_def listDocuments_def validated_send
          status_ClientError split: sum.splits)
next
  case (GetDocument brainId documentName)
  with assms show ?thesis
    by (auto simp: createApp_def get_document_def getDocument_def validated_send
          status_ClientError split: sum.splits option.splits)
next
  case (DeleteDocument brainId documentName)
  with assms show ?thesis
    by (auto simp: createApp_def delete_document_def deleteDocument_def send_def
          status_ClientError split: sum.splits option.splits)
qed

lemma createApp_fulfilled:
  assumes "snd (createApp cuts beyond fmt srv now dsk r) = [req]"
    and "srv req = Fulfilled data"
  shows "status (fst (createApp cuts beyond fmt srv now dsk r))
           = (if answer_passes fmt r data then success_status r
              else if r = GetHealth then 503 else 400)"
proof (cases r)
  case GetRoot
  with assms show ?thesis by (simp add: createApp_def)
next
  case GetHealth
  with assms show ?thesis
    by (auto simp: createApp_def get_health_def health_def validated_send answer_passes_def
          success_status_def split: sum.splits)
next
  case (PostBrains req_body)
  with assms show ?thesis
    by (auto simp: createApp_def post_brains_def createBrain_def validated_send
          answer_passes_def success_status_def status_ZodError split: sum.splits)
next
  case GetBrains
  with assms show ?thesis
    by (auto simp: createApp_def get_brains_def listBrains_def validated_send
          answer_passes_def success_status_def status_ZodError split: sum.splits)
next
  case (GetBrain brainId)
  with assms show ?thesis
    by (auto simp: createApp_def get_brain_def getBrain_def validated_send
          answer_passes_def success_status_def status_ZodError split: sum.splits)
next
  case (DeleteBrain brainId)
  with assms show ?thesis
    by (auto simp: createApp_def delete_brain_def deleteBrain_def send_def
          answer_passes_def success_status_def split: sum.splits)
next
  case (PostDocuments brainId parts)
  with assms show ?thesis
    by (auto simp: createApp_def post_documents_def uploadDocumentsWithFormData_def send_def
          answer_passes_def success_status_def split: prod.splits sum.splits if_splits)
next
  case (PostQuery brainId req_body)
  with assms show ?thesis
    by (auto simp: createApp_def post_query_def queryBrain_def validated_send
          answer_passes_def success_status_def status_ZodError split: sum.splits)
next
  case (GetDocuments brainId)
  with assms show ?thesis
    by (auto simp: createApp_def get_documents_def listDocuments_def validated_send
          answer_passes_def success_status_def status_ZodError split: sum.splits)
next
  case (GetDocument brainId documentName)
  with assms show ?thesis
    by (auto simp: createApp_def get_document_def getDocument_def validated_send
          answer_passes_def success_status_def status_ZodError split: sum.splits option.splits)
next
  case (DeleteDocument brainId documentName)
  with assms show ?thesis
    by (auto simp: createApp_def delete_document_def deleteDocument_def send_def
          answer_passes_def success_status_def split: sum.splits option.splits)
qed

lemma createApp_nothing_sent:
  assumes "snd (createApp cuts beyond fmt srv now dsk r) = []"
  shows "status (fst (createApp cuts beyond fmt srv now dsk r))
           = (case r of
                GetRoot \<Rightarrow> 200
              | PostBrains req_body \<Rightarrow> 400
              | PostQuery brainId req_body \<Rightarrow> 400
              | PostDocuments brainId parts \<Rightarrow>
                  if isl (fst (upload_array cuts beyond 0 [] dsk parts)) then 500 else 400
              | _ \<Rightarrow> 500)"
proof (cases r)
  case (PostDocuments brainId parts)
  obtain res d1 where u: "upload_array cuts beyond 0 [] dsk parts = (res, d1)"
    by (cases "upload_array cuts beyond 0 [] dsk parts")
  show ?thesis
  proof (cases res)
    case (Inl e)
    then show ?thesis
      using assms PostDocuments u
      by (cases e) (simp_all add: createApp_def post_documents_def upload_thrown_def errorHandler_def)
  next
    case (Inr files)
    then show ?thesis
      using assms PostDocuments u
      by (auto simp: createApp_def post_documents_def split: sum.splits if_splits)
  qed
next
  case (GetDocument brainId documentName)
  with assms show ?thesis
    by (auto simp: createApp_def get_document_def getDocument_def status_OtherError
          split: sum.splits option.splits)
next
  case (DeleteDocument brainId documentName)
  with assms show ?thesis
    by (auto simp: createApp_def delete_document_def deleteDocument_def status_OtherError
          split: sum.splits option.splits)
qed (use assms in \<open>auto simp: createApp_def get_health_def post_brains_def get_brains_def
       get_brain_def delete_brain_def post_query_def get_documents_def status_ZodError
       split: sum.splits\<close>)

text \<open>
  C7, amended. On every route but \<^verbatim>\<open>GET /health\<close> the errors reach the error handler,
  which gives a validation error of zod (of the body of the request, or of the answer of
  the service) the status 400 and an error that is neither a validation error nor an error
  of the client the status 500; an error of the client keeps the status of the response of
  the service, whatever it is (its 404 for not-found, its 400 for an empty brain, its 503
  for engine-unavailable), and has status 500 when the service gave no response (a
  timeout, a refused connection). On \<^verbatim>\<open>GET /health\<close> every failure of the call to the
  service (an error response, no response, an answer that fails the schema) gives 503.
  So, for every request to the application: it sends at most one request to the service;
  when the service rejects that request, the status is 503 on the health route and
  elsewhere the status of the response of the service, 500 when there is none; when the
  service fulfils it, the status is the status of success of the route if the answer
  passes the schema of the route, 503 on the health route and 400 elsewhere if it does
  not; when the application sends nothing, the status is 200 on the root endpoint, 400
  for a body that fails its schema and for an upload with no file, and 500 for an upload
  that multer or the filter refuses and for a document name that cannot be encoded.
\<close>

theorem error_status_mapping:
  "status (errorHandler (ZodError iss)) = 400
   \<and> status (errorHandler (OtherError text)) = 500
   \<and> (srv req = Rejected msg resp \<longrightarrow>
        (\<exists>e. send srv req = Inl e
           \<and> status (errorHandler e) = (case resp of Some (c, x) \<Rightarrow> c | None \<Rightarrow> 500)))
   \<and> (snd (createApp cuts beyond fmt srv now dsk r) = []
        \<or> (\<exists>req'. snd (createApp cuts beyond fmt srv now dsk r) = [req']))
   \<and> (snd (createApp cuts beyond fmt srv now dsk r) = [req] \<and> srv req = Rejected msg resp \<longrightarrow>
        status (fst (createApp cuts beyond fmt srv now dsk r))
          = (if r = GetHealth then 503 else case resp of Some (c, x) \<Rightarrow> c | None \<Rightarrow> 500))
   \<and> (snd (createApp cuts beyond fmt srv now dsk r) = [req] \<and> srv req = Fulfilled data \<longrightarrow>
        status (fst (createApp cuts beyond fmt srv now dsk r))
          = (if answer_passes fmt r data then success_status r
             else if r = GetHealth then 503 else 400))
   \<and> (snd (createApp cuts beyond fmt srv now dsk r) = [] \<longrightarrow>
        status (fst (createApp cuts beyond fmt srv now dsk r))
          = (case r of
               GetRoot \<Rightarrow> 200
             | PostBrains req_body \<Rightarrow> 400
             | PostQuery brainId req_body \<Rightarrow> 400
             | PostDocuments brainId parts \<Rightarrow>
                 if isl (fst (upload_array cuts beyond 0 [] dsk parts)) then 500 else 400
             | _ \<Rightarrow> 500))
   \<and> (query_in_range req_body
        \<and> srv (queryBrain_request brainId (query_of req_body)) = Rejected msg resp \<longrightarrow>
        status (fst (post_query srv brainId req_body))
          = (case resp of Some (c, x) \<Rightarrow> c | None \<Rightarrow> 500))"
proof (intro conjI impI)
  show "status (errorHandler (ZodError iss)) = 400"
    by (rule status_ZodError)
  show "status (errorHandler (OtherError text)) = 500"
    by (rule status_OtherError)
  show "snd (createApp cuts beyond fmt srv now dsk r) = []
        \<or> (\<exists>req'. snd (createApp cuts beyond fmt srv now dsk r) = [req'])"
    by (rule createApp_sends_at_most_one)
next
  assume "srv req = Rejected msg resp"
  then show "\<exists>e. send srv req = Inl e
           \<and> status (errorHandler e) = (case resp of Some (c, x) \<Rightarrow> c | None \<Rightarrow> 500)"
    using send_Rejected status_ClientError by blast
next
  assume "snd (createApp cuts beyond fmt srv now dsk r) = [req] \<and> srv req = Rejected msg resp"
  then show "status (fst (createApp cuts beyond fmt srv now dsk r))
          = (if r = GetHealth then 503 else case resp of Some (c, x) \<Rightarrow> c | None \<Rightarrow> 500)"
    using createApp_rejected by blast
next
  assume "snd (createApp cuts beyond fmt srv now dsk r) = [req] \<and> srv req = Fulfilled data"
  then show "status (fst (createApp cuts beyond fmt srv now dsk r))
          = (if answer_passes fmt r data then success_status r
             else if r = GetHealth then 503 else 400)"
    using createApp_fulfilled by blast
next
  assume "snd (createApp cuts beyond fmt srv now dsk r) = []"
  then show "status (fst (createApp cuts beyond fmt srv now dsk r))
          = (case r of
               GetRoot \<Rightarrow> 200
             | PostBrains req_body \<Rightarrow> 400
             | PostQuery brainId req_body \<Rightarrow> 400
             | PostDocuments brainId parts \<Rightarrow>
                 if isl (fst (upload_array cuts beyond 0 [] dsk parts)) then 500 else 400
             | _ \<Rightarrow> 500)"
    by (rule createApp_nothing_sent)
next
  assume a: "query_in_range req_body
        \<and> srv (queryBrain_request brainId (query_of req_body)) = Rejected msg resp"
  then have p: "QueryRequestSchema req_body = Inr (query_of req_body)"
    by (simp add: QueryRequestSchema_accepts)
  have q: "queryBrain srv brainId (query_of req_body)
             = Inl (ClientError (setupInterceptors msg resp))"
    using a by (simp add: queryBrain_def validated_def send_Rejected)
  show "status (fst (post_query srv brainId req_body))
          = (case resp of Some (c, x) \<Rightarrow> c | None \<Rightarrow> 500)"
    by (simp add: post_query_def p q status_ClientError)
qed

text \<open>C7, amended, on the query route at a 404, at a 503 and at a timeout of the service,
  and on the health route at a timeout.\<close>

theorem error_status_mapping_witness:
  "snd (createApp True (\<lambda>s. s)
          \<lparr>uuid = (\<lambda>s. True), datetime = (\<lambda>s. True)\<rparr>
          (\<lambda>r. Rejected ''Request failed with status code 404'' (Some (404, JObj [(''detail'', JStr ''Brain not found'')])))
          ''2026-01-30T10:00:01.000Z'' \<lparr>present = {}, stuck = {}\<rparr>
          (PostQuery ''b1'' (JObj [(''question'', JStr ''What is a brain?'')])))
     = [queryBrain_request ''b1'' \<lparr>question = ''What is a brain?'', max_tokens = 1024, temperature = 7 / 10\<rparr>]
   \<and> status (fst (createApp True (\<lambda>s. s)
          \<lparr>uuid = (\<lambda>s. True), datetime = (\<lambda>s. True)\<rparr>
          (\<lambda>r. Rejected ''Request failed with status code 404'' (Some (404, JObj [(''detail'', JStr ''Brain not found'')])))
          ''2026-01-30T10:00:01.000Z'' \<lparr>present = {}, stuck = {}\<rparr>
          (PostQuery ''b1'' (JObj [(''question'', JStr ''What is a brain?'')])))) = 404
   \<and> status (fst (createApp True (\<lambda>s. s)
          \<lparr>uuid = (\<lambda>s. True), datetime = (\<lambda>s. True)\<rparr>
          (\<lambda>r. Rejected ''Request failed with status code 503'' (Some (503, JNull)))
          ''2026-01-30T10:00:01.000Z'' \<lparr>present = {}, stuck = {}\<rparr>
          (PostQuery ''b1'' (JObj [(''question'', JStr ''What is a brain?'')])))) = 503
   \<and> status (fst (createApp True (\<lambda>s. s)
          \<lparr>uuid = (\<lambda>s. True), datetime = (\<lambda>s. True)\<rparr>
          (\<lambda>r. Rejected ''timeout of 60000ms exceeded'' None)
          ''2026-01-30T10:00:01.000Z'' \<lparr>present = {}, stuck = {}\<rparr>
          (PostQuery ''b1'' (JObj [(''question'', JStr ''What is a brain?'')])))) = 500
   \<and> snd (createApp True (\<lambda>s. s)
          \<lparr>uuid = (\<lambda>s. True), datetime = (\<lambda>s. True)\<rparr>
          (\<lambda>r. Rejected ''timeout of 60000ms exceeded'' None)
          ''2026-01-30T10:00:01.000Z'' \<lparr>present = {}, stuck = {}\<rparr>
          GetHealth) = [health_request]
   \<and> status (fst (createApp True (\<lambda>s. s)
          \<lparr>uuid = (\<lambda>s. True), datetime = (\<lambda>s. True)\<rparr>
          (\<lambda>r. Rejected ''timeout of 60000ms exceeded'' None)
          ''2026-01-30T10:00:01.000Z'' \<lparr>present = {}, stuck = {}\<rparr>
          GetHealth)) = 503
   \<and> query_in_range (JObj [(''question'', JStr ''What is a brain?'')])"
  using
        error_status_mapping
          [where cuts = True and beyond = "\<lambda>s. s"
             and fmt = "\<lparr>uuid = (\<lambda>s. True), datetime = (\<lambda>s. True)\<rparr>"
             and srv = "\<lambda>r. Rejected ''Request failed with status code 404'' (Some (404, JObj [(''detail'', JStr ''Brain not found'')]))"
             and now = "''2026-01-30T10:00:01.000Z''" and dsk = "\<lparr>present = {}, stuck = {}\<rparr>"
             and r = "PostQuery ''b1'' (JObj [(''question'', JStr ''What is a brain?'')])"
             and req = "queryBrain_request ''b1'' \<lparr>question = ''What is a brain?'', max_tokens = 1024, temperature = 7 / 10\<rparr>"
             and msg = "''Request failed with status code 404''" and resp = "Some (404, JObj [(''detail'', JStr ''Brain not found'')])"
             and req_body = "JObj [(''question'', JStr ''What is a brain?'')]" and brainId = "''b1''"]
        error_status_mapping
          [where cuts = True and beyond = "\<lambda>s. s"
             and fmt = "\<lparr>uuid = (\<lambda>s. True), datetime = (\<lambda>s. True)\<rparr>"
             and srv = "\<lambda>r. Rejected ''Request failed with status code 503'' (Some (503, JNull))"
             and now = "''2026-01-30T10:00:01.000Z''" and dsk = "\<lparr>present = {}, stuck = {}\<rparr>"
             and r = "PostQuery ''b1'' (JObj [(''question'', JStr ''What is a brain?'')])"
             and req = "queryBrain_request ''b1'' \<lparr>question = ''What is a brain?'', max_tokens = 1024, temperature = 7 / 10\<rparr>"
             and msg = "''Request failed with status code 503''" and resp = "Some (503, JNull)"
             and req_body = "JObj [(''question'', JStr ''What is a brain?'')]" and brainId = "''b1''"]
        error_status_mapping
          [where cuts = True and beyond = "\<lambda>s. s"
             and fmt = "\<lparr>uuid = (\<lambda>s. True), datetime = (\<lambda>s. True)\<rparr>"
             and srv = "\<lambda>r. Rejected ''timeout of 60000ms exceeded'' None"
             and now = "''2026-01-30T10:00:01.000Z''" and dsk = "\<lparr>present = {}, stuck = {}\<rparr>"
             and r = "PostQuery ''b1'' (JObj [(''question'', JStr ''What is a brain?'')])"
             and req = "queryBrain_request ''b1'' \<lparr>question = ''What is a brain?'', max_tokens = 1024, temperature = 7 / 10\<rparr>"
             and msg = "''timeout of 60000ms exceeded''" and resp = "None"
             and req_body = "JObj [(''question'', JStr ''What is a brain?'')]" and brainId = "''b1''"]
        error_status_mapping
          [where cuts = True and beyond = "\<lambda>s. s"
             and fmt = "\<lparr>uuid = (\<lambda>s. True), datetime = (\<lambda>s. True)\<rparr>"
             and srv = "\<lambda>r. Rejected ''timeout of 60000ms exceeded'' None"
             and now = "''2026-01-30T10:00:01.000Z''" and dsk = "\<lparr>present = {}, stuck = {}\<rparr>"
             and r = "GetHealth"
             and req = "health_request"
             and msg = "''timeout of 60000ms exceeded''" and resp = "None"
             and req_body = "JObj [(''question'', JStr ''What is a brain?'')]" and brainId = "''b1''"]
  by (simp add: createApp_def post_query_def get_health_def health_def QueryRequestSchema_def
        member_of_def z_string_def z_int_def z_number_def z_default_def issues_or_def
        is_integer_def queryBrain_def validated_def send_def query_in_range_def question_ok_def
        max_tokens_ok_def temperature_ok_def)

section \<open>The health route\<close>

lemma HealthResponseSchema_status:
  assumes "HealthResponseSchema fmt d = Inr h"
  shows "\<exists>kv. d = JObj kv \<and> member_of kv ''status'' = Some (JStr (health_status h))"
proof (cases d)
  case (JObj kv)
  let ?s = "z_enum ''status'' [''healthy'', ''degraded'', ''unhealthy''] (member_of kv ''status'')"
  let ?v = "z_string ''version'' None None (member_of kv ''version'')"
  let ?t = "z_format ''timestamp'' (datetime fmt) (member_of kv ''timestamp'')"
  from assms have ok: "\<not> (isl ?s \<or> isl ?v \<or> isl ?t)" and h: "health_status h = projr ?s"
    unfolding JObj HealthResponseSchema_def Let_def case3_sum
    by (auto split: if_splits)
  from ok obtain s where s: "?s = Inr s" by (cases ?s) auto
  then have "member_of kv ''status'' = Some (JStr s)"
    by (auto simp: z_enum_def split: option.splits json.splits if_splits)
  with h s JObj show ?thesis by simp
qed (use assms in \<open>simp_all add: HealthResponseSchema_def\<close>)

text \<open>
  C9. \<^verbatim>\<open>GET /health\<close> always answers, with the status of the gateway, \<^verbatim>\<open>healthy\<close>, next
  to the status of the service: the status the service reported, with 200, when the call
  succeeded and its data passed the schema; \<^verbatim>\<open>unhealthy\<close>, with 503 and the message of
  the failure, when the call was rejected or its data did not pass the schema. The failure
  is never propagated to the error handler.
\<close>

theorem health_reports_both_services:
  "(\<exists>py err. get_health fmt srv now
       = (\<lparr>status = (if isl (health fmt srv) then 503 else 200),
           body = Health ''healthy'' py err now\<rparr>, [health_request]))
   \<and> (srv health_request = Fulfilled d \<and> HealthResponseSchema fmt d = Inr h \<longrightarrow>
         fst (get_health fmt srv now)
           = \<lparr>status = 200, body = Health ''healthy'' (health_status h) None now\<rparr>
         \<and> (\<exists>kv. d = JObj kv \<and> member_of kv ''status'' = Some (JStr (health_status h))))
   \<and> (srv health_request = Fulfilled d \<and> HealthResponseSchema fmt d = Inl iss \<longrightarrow>
         fst (get_health fmt srv now)
           = \<lparr>status = 503, body = Health ''healthy'' ''unhealthy'' (Some (Issues_text iss)) now\<rparr>)
   \<and> (srv health_request = Rejected msg resp \<longrightarrow>
         fst (get_health fmt srv now)
           = \<lparr>status = 503,
              body = Health ''healthy'' ''unhealthy'' (Some (message (setupInterceptors msg resp))) now\<rparr>)"
proof (intro conjI impI)
  show "\<exists>py err. get_health fmt srv now
       = (\<lparr>status = (if isl (health fmt srv) then 503 else 200),
           body = Health ''healthy'' py err now\<rparr>, [health_request])"
    by (cases "health fmt srv") (simp_all add: get_health_def)
next
  assume a: "srv health_request = Fulfilled d \<and> HealthResponseSchema fmt d = Inr h"
  then show "fst (get_health fmt srv now)
           = \<lparr>status = 200, body = Health ''healthy'' (health_status h) None now\<rparr>"
    by (simp add: get_health_def health_def validated_def send_def)
  from a show "\<exists>kv. d = JObj kv \<and> member_of kv ''status'' = Some (JStr (health_status h))"
    using HealthResponseSchema_status by blast
next
  assume "srv health_request = Fulfilled d \<and> HealthResponseSchema fmt d = Inl iss"
  then show "fst (get_health fmt srv now)
           = \<lparr>status = 503, body = Health ''healthy'' ''unhealthy'' (Some (Issues_text iss)) now\<rparr>"
    by (simp add: get_health_def health_def validated_def send_def thrown_message_def)
next
  assume "srv health_request = Rejected msg resp"
  then show "fst (get_health fmt srv now)
           = \<lparr>status = 503,
              body = Health ''healthy'' ''unhealthy'' (Some (message (setupInterceptors msg resp))) now\<rparr>"
    by (simp add: get_health_def health_def validated_def send_def thrown_message_def)
qed

text \<open>C9, at a service that reports \<^verbatim>\<open>degraded\<close> and at a service that refuses the
  connection.\<close>

theorem health_reports_both_services_witness:
  "fst (get_health \<lparr>uuid = (\<lambda>s. True), datetime = (\<lambda>s. True)\<rparr>
         (\<lambda>r. Fulfilled (JObj [(''status'', JStr ''degraded''), (''version'', JStr ''1.0.0''),
                                (''timestamp'', JStr ''2026-01-30T10:00:00Z'')]))
         ''2026-01-30T10:00:01.000Z'')
     = \<lparr>status = 200, body = Health ''healthy'' ''degraded'' None ''2026-01-30T10:00:01.000Z''\<rparr>
   \<and> fst (get_health \<lparr>uuid = (\<lambda>s. True), datetime = (\<lambda>s. True)\<rparr>
           (\<lambda>r. Rejected ''connect ECONNREFUSED 127.0.0.1:8000'' None)
           ''2026-01-30T10:00:01.000Z'')
     = \<lparr>status = 503,
        body = Health ''healthy'' ''unhealthy'' (Some (Text ''connect ECONNREFUSED 127.0.0.1:8000''))
                 ''2026-01-30T10:00:01.000Z''\<rparr>"
  using health_reports_both_services
          [of "\<lparr>uuid = (\<lambda>s. True), datetime = (\<lambda>s. True)\<rparr>"
              "\<lambda>r. Fulfilled (JObj [(''status'', JStr ''degraded''), (''version'', JStr ''1.0.0''),
                                (''timestamp'', JStr ''2026-01-30T10:00:00Z'')])"
              "''2026-01-30T10:00:01.000Z''"
              "JObj [(''status'', JStr ''degraded''), (''version'', JStr ''1.0.0''),
                     (''timestamp'', JStr ''2026-01-30T10:00:00Z'')]"
              "\<lparr>health_status = ''degraded'', version = ''1.0.0'',
                timestamp = ''2026-01-30T10:00:00Z''\<rparr>"]
        health_reports_both_services
          [of "\<lparr>uuid = (\<lambda>s. True), datetime = (\<lambda>s. True)\<rparr>"
              "\<lambda>r. Rejected ''connect ECONNREFUSED 127.0.0.1:8000'' None"
              "''2026-01-30T10:00:01.000Z''" _ _ _ "''connect ECONNREFUSED 127.0.0.1:8000''" None]
  by (simp add: HealthResponseSchema_def member_of_def z_enum_def z_string_def z_format_def
        issues_or_def setupInterceptors_def)

section \<open>The upload route\<close>

lemma unlinkSync_effect:
  "unlinkSync p d = Some d' \<Longrightarrow> present d' = present d - {p} \<and> stuck d' = stuck d"
  by (auto simp: unlinkSync_def split: if_splits)

lemma unlinkSync_None: "unlinkSync p d = None \<Longrightarrow> p \<in> stuck d \<or> p \<notin> present d"
  by (auto simp: unlinkSync_def split: if_splits)

lemma cleanupFiles_stuck: "stuck (cleanupFiles files d) = stuck d"
  by (induction files arbitrary: d) (auto simp: unlinkSync_def)

lemma removeUploadedFiles_stuck: "stuck (removeUploadedFiles files d) = stuck d"
  by (induction files arbitrary: d) (auto simp: unlinkSync_def)

lemma cleanupFiles_present:
  "present (cleanupFiles files d) = present d - (set (map file_path files) - stuck d)"
proof (induction files arbitrary: d)
  case Nil
  then show ?case by simp
next
  case (Cons f files)
  let ?d = "if file_path f \<in> present d
            then (case unlinkSync (file_path f) d of Some d' \<Rightarrow> d' | None \<Rightarrow> d) else d"
  have p: "present ?d = present d - ({file_path f} - stuck d)" and s: "stuck ?d = stuck d"
    by (auto simp: unlinkSync_def)
  have "present (cleanupFiles files ?d) = present ?d - (set (map file_path files) - stuck ?d)"
    by (rule Cons.IH)
  then have "present (cleanupFiles (f # files) d)
               = present d - ({file_path f} - stuck d) - (set (map file_path files) - stuck d)"
    unfolding p s by simp
  then show ?case by auto
qed

lemma removeUploadedFiles_present:
  "present (removeUploadedFiles files d) = present d - (set (map file_path files) - stuck d)"
proof (induction files arbitrary: d)
  case Nil
  then show ?case by simp
next
  case (Cons f files)
  let ?d = "case unlinkSync (file_path f) d of Some d' \<Rightarrow> d' | None \<Rightarrow> d"
  have p: "present ?d = present d - ({file_path f} - stuck d)" and s: "stuck ?d = stuck d"
    by (auto simp: unlinkSync_def)
  have "present (removeUploadedFiles files ?d) = present ?d - (set (map file_path files) - stuck ?d)"
    by (rule Cons.IH)
  then have "present (removeUploadedFiles (f # files) d)
               = present d - ({file_path f} - stuck d) - (set (map file_path files) - stuck d)"
    unfolding p s by simp
  then show ?case by auto
qed

lemma fileFilter_accepts:
  "fileFilter beyond file = Inr b \<longleftrightarrow>
     b \<and> toLowerCase beyond (extname (originalname file)) \<in> set ALLOWED_EXTENSIONS
       \<and> mimetype file \<in> set ALLOWED_MIME_TYPES"
  by (auto simp: fileFilter_def Let_def)


lemma acceptable_iff:
  "acceptable cuts beyond file \<longleftrightarrow>
     fieldname file = ''files'' \<and> fileFilter beyond file = Inr True
     \<and> \<not> over_limit cuts (content_size file)"
  by (auto simp: acceptable_def fileFilter_accepts)

lemma named_Cons:
  "named (part # rest) = (if originalname part = [] then named rest else part # named rest)"
  by (simp add: named_def)

lemma named_subset: "set (named parts) \<subseteq> set parts"
  by (auto simp: named_def)

lemma upload_array_Inr:
  "upload_array cuts beyond seen up d parts = (Inr files, d') \<Longrightarrow>
     files = up @ map stored (named parts) \<and> list_all (acceptable cuts beyond) (named parts)
     \<and> (parts \<noteq> [] \<longrightarrow> seen + length parts \<le> MAX_FILES)
     \<and> present d' = present d \<union> set (map storage_path (named parts)) \<and> stuck d' = stuck d"
proof (induction parts arbitrary: seen up d)
  case Nil
  then show ?case by (simp add: named_def)
next
  case (Cons part rest)
  from Cons.prems have c: "seen < MAX_FILES"
    by (auto split: if_splits)
  show ?case
  proof (cases "originalname part = []")
    case True
    with Cons.prems c have r: "upload_array cuts beyond (Suc seen) up d rest = (Inr files, d')"
      by simp
    note ih = Cons.IH [OF r]
    show ?thesis
      using ih c True by (cases rest) (auto simp: named_Cons)
  next
    case False
    from Cons.prems c False have f: "fieldname part = ''files''"
      by (auto split: if_splits)
    from Cons.prems c f False obtain b where b: "fileFilter beyond part = Inr b"
      by (cases "fileFilter beyond part") (auto split: if_splits)
    from Cons.prems c f b False have sz: "\<not> over_limit cuts (content_size part)"
      and r: "upload_array cuts beyond (Suc seen) (up @ [stored part])
                (write_file (storage_path part) d) rest = (Inr files, d')"
      by (auto simp: Let_def split: if_splits)
    from b have b': "fileFilter beyond part = Inr True" by (simp add: fileFilter_accepts)
    note ih = Cons.IH [OF r]
    show ?thesis
      using ih f b' sz c False by (cases rest) (auto simp: acceptable_iff write_file_def named_Cons)
  qed
qed


lemma upload_array_Inl:
  "upload_array cuts beyond seen up d parts = (Inl e, d') \<Longrightarrow>
     present d' \<subseteq> (present d - (set (map file_path up) - stuck d))
                    \<union> (set (map storage_path (named parts)) \<inter> stuck d)
     \<and> stuck d' = stuck d"
proof (induction parts arbitrary: seen up d)
  case Nil
  then show ?case by simp
next
  case (Cons part rest)
  let ?d = "write_file (storage_path part) d"
  let ?up = "up @ [stored part]"
  note up = removeUploadedFiles_present [of up d]
  note up' = removeUploadedFiles_present [of ?up ?d]
  show ?case
  proof (cases "seen \<ge> MAX_FILES")
    case True
    then show ?thesis
      using Cons.prems up by (auto simp: removeUploadedFiles_stuck)
  next
    case c: False
    show ?thesis
    proof (cases "originalname part = []")
      case True
      with c Cons.prems have "upload_array cuts beyond (Suc seen) up d rest = (Inl e, d')"
        by simp
      from Cons.IH [OF this] show ?thesis
        using True by (auto simp: named_Cons)
    next
      case n: False
      show ?thesis
      proof (cases "fieldname part \<noteq> ''files'' \<or> length up \<ge> MAX_FILES
                    \<or> isl (fileFilter beyond part)")
        case True
        then show ?thesis
          using Cons.prems c n up
          by (auto simp: removeUploadedFiles_stuck split: if_splits sum.splits)
      next
        case False
        then obtain b where b: "fileFilter beyond part = Inr b"
          by (cases "fileFilter beyond part") auto
        show ?thesis
        proof (cases "over_limit cuts (content_size part)")
          case True
          with False b c n Cons.prems have "d' = removeUploadedFiles ?up ?d"
            by (simp add: Let_def)
          then show ?thesis
            using up' n by (auto simp: removeUploadedFiles_stuck write_file_def stored_def named_Cons)
        next
          case False': False
          with False b c n Cons.prems
          have "upload_array cuts beyond (Suc seen) ?up ?d rest = (Inl e, d')"
            by (simp add: Let_def)
          from Cons.IH [OF this] show ?thesis
            using n by (auto simp: write_file_def stored_def named_Cons)
        qed
      qed
    qed
  qed
qed







text \<open>
  C6, as stated, fails when the unlink of a temporary file throws: \<^verbatim>\<open>cleanupFiles\<close>
  catches the error, logs it and goes on, and the file stays on the disk after a request
  that succeeded.
\<close>

theorem unlink_failure_counterexample:
  "status (fst (post_documents True (\<lambda>s. s) (\<lambda>r. Fulfilled JNull) ''2026-01-30T10:00:00.000Z''
                  \<lparr>present = {}, stuck = {''uploads/a-1706608800000-7.pdf''}\<rparr> ''b1''
                  [\<lparr>fieldname = ''files'', originalname = ''a.pdf'',
                    mimetype = ''application/pdf'', content_size = 1024,
                    uniqueSuffix = ''1706608800000-7''\<rparr>])) = 201
   \<and> present (snd (snd (post_documents True (\<lambda>s. s) (\<lambda>r. Fulfilled JNull)
                          ''2026-01-30T10:00:00.000Z''
                          \<lparr>present = {}, stuck = {''uploads/a-1706608800000-7.pdf''}\<rparr> ''b1''
                          [\<lparr>fieldname = ''files'', originalname = ''a.pdf'',
                            mimetype = ''application/pdf'', content_size = 1024,
                            uniqueSuffix = ''1706608800000-7''\<rparr>])))
       = {''uploads/a-1706608800000-7.pdf''}"
  by (simp add: post_documents_def MAX_FILES_def MAX_FILE_SIZE_def over_limit_def fileFilter_def
        extname_def last_segment_def toLowerCase_def ascii_def lower_char_def
        ALLOWED_EXTENSIONS_def ALLOWED_MIME_TYPES_def unlinkSync_def
        uploadDocumentsWithFormData_def send_def stored_def storage_path_def basename_def
        uploadsDir_def write_file_def Let_def)

text \<open>
  C6, amended. Whatever the parts of a request that is read to its end and whatever the
  service answers, every file written to the temporary storage during the request is
  unlinked before the request is answered, on the path of success and on the path of
  failure alike, and is gone unless its unlink throws: then the failure is logged and the
  file stays. So the only files a request leaves on the disk that were not there before
  are temporary files of the request whose unlink threw. When multer hands the files to
  the route, each of them is on the disk at that moment; once the route has answered, the
  disk holds what it held before without the paths of the files, and those of the files
  whose unlink threw.
\<close>

theorem no_orphaned_temp_files:
  "present (snd (snd (post_documents cuts beyond srv now d brainId parts)))
     \<subseteq> present d \<union> (set (map storage_path (named parts)) \<inter> stuck d)
   \<and> (\<forall>files d1. upload_array cuts beyond 0 [] d parts = (Inr files, d1) \<longrightarrow>
         set (map file_path files) = set (map storage_path (named parts))
         \<and> present d1 = present d \<union> set (map file_path files)
         \<and> present (snd (snd (post_documents cuts beyond srv now d brainId parts)))
             = (present d - set (map file_path files))
               \<union> (set (map file_path files) \<inter> stuck d))"
proof -
  obtain r d1 where u: "upload_array cuts beyond 0 [] d parts = (r, d1)"
    by (cases "upload_array cuts beyond 0 [] d parts")
  show ?thesis
  proof (cases r)
    case (Inl e)
    from u [unfolded Inl]
    have "present d1 \<subseteq> present d \<union> (set (map storage_path (named parts)) \<inter> stuck d)"
      using upload_array_Inl [of cuts beyond 0 "[]" d parts e d1] by auto
    then show ?thesis by (simp add: post_documents_def u Inl)
  next
    case (Inr files)
    from upload_array_Inr [OF u [unfolded Inr]]
    have f: "files = map stored (named parts)"
      and p: "present d1 = present d \<union> set (map storage_path (named parts))"
      and s: "stuck d1 = stuck d"
      by auto
    have paths: "map file_path files = map storage_path (named parts)"
      by (simp add: f stored_def)
    have c: "present (cleanupFiles files d1)
               = present d1 - (set (map file_path files) - stuck d1)"
      by (rule cleanupFiles_present)
    have p2: "present d1 = present d \<union> set (map file_path files)"
      unfolding p paths by (rule refl)
    have c2: "present (cleanupFiles files d1)
                = (present d - set (map file_path files)) \<union> (set (map file_path files) \<inter> stuck d)"
      unfolding c p2 s by blast
    have final: "present (snd (snd (post_documents cuts beyond srv now d brainId parts)))
                   = (present d - set (map file_path files))
                     \<union> (set (map file_path files) \<inter> stuck d)"
    proof (cases "files = []")
      case True
      then show ?thesis using p2 by (simp add: post_documents_def u Inr)
    next
      case False
      then show ?thesis
        using c2 by (simp add: post_documents_def u Inr split: sum.splits)
    qed
    have ps: "set (map file_path files) = set (map storage_path (named parts))"
      unfolding paths by (rule refl)
    have sub: "present (snd (snd (post_documents cuts beyond srv now d brainId parts)))
                 \<subseteq> present d \<union> (set (map storage_path (named parts)) \<inter> stuck d)"
      unfolding final ps by blast
    show ?thesis
    proof (intro conjI allI impI)
      show "present (snd (snd (post_documents cuts beyond srv now d brainId parts)))
              \<subseteq> present d \<union> (set (map storage_path (named parts)) \<inter> stuck d)"
        by (rule sub)
    next
      fix files' d1'
      assume "upload_array cuts beyond 0 [] d parts = (Inr files', d1')"
      then have e: "files' = files" "d1' = d1" by (simp_all add: u Inr)
      show "set (map file_path files') = set (map storage_path (named parts))"
        unfolding e by (rule ps)
      show "present d1' = present d \<union> set (map file_path files')"
        unfolding e by (rule p2)
      show "present (snd (snd (post_documents cuts beyond srv now d brainId parts)))
              = (present d - set (map file_path files'))
                \<union> (set (map file_path files') \<inter> stuck d)"
        unfolding e by (rule final)
    qed
  qed
qed

text \<open>C6, amended, at a batch of one file the service refuses, on a disk that holds another
  file and on which no unlink throws.\<close>

theorem no_orphaned_temp_files_witness:
  "present (snd (upload_array True (\<lambda>s. s) 0 [] \<lparr>present = {''uploads/keep.txt''}, stuck = {}\<rparr>
                     [\<lparr>fieldname = ''files'', originalname = ''a.pdf'', mimetype = ''application/pdf'',
                       content_size = 1024, uniqueSuffix = ''1706608800000-7''\<rparr>]))
       = {''uploads/keep.txt'', ''uploads/a-1706608800000-7.pdf''}
   \<and> present (snd (snd (post_documents True (\<lambda>s. s)
                          (\<lambda>r. Rejected ''timeout of 60000ms exceeded'' None)
                          ''2026-01-30T10:00:00.000Z''
                          \<lparr>present = {''uploads/keep.txt''}, stuck = {}\<rparr> ''b1''
                          [\<lparr>fieldname = ''files'', originalname = ''a.pdf'',
                            mimetype = ''application/pdf'', content_size = 1024,
                            uniqueSuffix = ''1706608800000-7''\<rparr>])))
       = {''uploads/keep.txt''}"
  using no_orphaned_temp_files
          [of True "\<lambda>s. s" "\<lambda>r. Rejected ''timeout of 60000ms exceeded'' None"
              "''2026-01-30T10:00:00.000Z''"
              "\<lparr>present = {''uploads/keep.txt''}, stuck = {}\<rparr>" "''b1''"
              "[\<lparr>fieldname = ''files'', originalname = ''a.pdf'', mimetype = ''application/pdf'',
                 content_size = 1024, uniqueSuffix = ''1706608800000-7''\<rparr>]"]
  by (auto simp: MAX_FILES_def MAX_FILE_SIZE_def over_limit_def fileFilter_def extname_def
        last_segment_def toLowerCase_def ascii_def lower_char_def ALLOWED_EXTENSIONS_def
        ALLOWED_MIME_TYPES_def stored_def storage_path_def basename_def uploadsDir_def
        write_file_def named_def)

section \<open>The documents of a brain and its count\<close>

lemma candidates_distinct:
  "distinct (map (\<lambda>k. n @ replicate k c) [0..<m])"
  by (auto simp: distinct_map inj_on_def dest: arg_cong [where f = length])

lemma resolve_name_fresh: "resolve_name taken n \<notin> set taken"
proof -
  let ?cands = "map (\<lambda>k. n @ replicate k CHR ''_'') [0..<Suc (length taken)]"
  have "find (\<lambda>c. c \<notin> set taken) ?cands \<noteq> None"
  proof
    assume "find (\<lambda>c. c \<notin> set taken) ?cands = None"
    then have "set ?cands \<subseteq> set taken"
      unfolding find_None_iff by blast
    then have "card (set ?cands) \<le> card (set taken)"
      by (intro card_mono) auto
    moreover have "card (set ?cands) = Suc (length taken)"
      using candidates_distinct [of n "CHR ''_''" "Suc (length taken)"]
      by (simp only: distinct_card length_map length_upt) simp?
    moreover have "card (set taken) \<le> length taken"
      by (rule card_length)
    ultimately show False by simp
  qed
  then obtain c where c: "find (\<lambda>c. c \<notin> set taken) ?cands = Some c" by blast
  then have "c \<notin> set taken" unfolding find_Some_iff by blast
  then show ?thesis unfolding resolve_name_def c by simp
qed

lemma put_fresh: "k \<notin> set (map fst kvs) \<Longrightarrow> put k doc kvs = kvs @ [(k, doc)]"
  by (simp add: put_def)

lemma persist_keys:
  "distinct (map fst kvs) \<Longrightarrow>
     distinct (map fst (persist now fs kvs))
     \<and> length (persist now fs kvs) = length kvs + length fs
     \<and> take (length kvs) (persist now fs kvs) = kvs"
proof (induction fs arbitrary: kvs)
  case Nil
  then show ?case by simp
next
  case (Cons f fs)
  let ?k = "resolve_name (map fst kvs) (upload_name f)"
  let ?doc = "\<lparr>Document_name = ?k, Document_size = upload_size f,
                Document_mime = upload_content_type f,
                Document_created_at = now, Document_modified_at = now\<rparr>"
  have fresh: "?k \<notin> set (map fst kvs)" by (rule resolve_name_fresh)
  then have p: "put ?k ?doc kvs = kvs @ [(?k, ?doc)]" by (rule put_fresh)
  have d: "distinct (map fst (kvs @ [(?k, ?doc)]))"
    using Cons.prems fresh by simp
  note ih = Cons.IH [OF d]
  have "take (length kvs) (persist now fs (kvs @ [(?k, ?doc)])) = kvs"
  proof -
    have "take (length kvs) (take (length (kvs @ [(?k, ?doc)])) (persist now fs (kvs @ [(?k, ?doc)])))
            = take (length kvs) (kvs @ [(?k, ?doc)])"
      using ih by simp
    then show ?thesis by (simp add: min_def)
  qed
  then show ?case using ih by (simp add: p)
qed

lemma recordDocumentChange_Inr:
  "brains s brainId = Some b \<Longrightarrow> 0 \<le> Brain_document_count b + delta \<Longrightarrow>
     recordDocumentChange brainId delta s
       = Inr (s\<lparr>brains := (brains s)(brainId \<mapsto>
                  b\<lparr>Brain_document_count := Brain_document_count b + delta,
                    Brain_updated_at := clock s\<rparr>)\<rparr>)"
  by (simp add: recordDocumentChange_def)

lemma upload_failure_unchanged:
  "fst (upload brainId files s) = Inl e \<Longrightarrow> snd (upload brainId files s) = s"
  by (auto simp: upload_def Let_def split: if_splits option.splits sum.splits)

lemma delete_failure_unchanged:
  "fst (delete brainId n s) = Inl e \<Longrightarrow> snd (delete brainId n s) = s"
  by (auto simp: delete_def Let_def split: if_splits option.splits sum.splits)

lemma length_filter_key:
  "distinct (map fst kvs) \<Longrightarrow> n \<in> set (map fst kvs) \<Longrightarrow>
     Suc (length (filter (\<lambda>(k, doc). k \<noteq> n) kvs)) = length kvs"
proof (induction kvs)
  case Nil
  then show ?case by simp
next
  case (Cons kv kvs)
  obtain k doc where kv: "kv = (k, doc)" by (cases kv)
  show ?case
  proof (cases "k = n")
    case True
    with Cons.prems kv have "n \<notin> set (map fst kvs)" by auto
    then have "filter (\<lambda>(k, doc). k \<noteq> n) kvs = kvs"
      by (force simp: filter_id_conv)
    with True kv show ?thesis by simp
  next
    case False
    with Cons kv show ?thesis by auto
  qed
qed

lemma distinct_filter_key:
  "distinct (map fst kvs) \<Longrightarrow> distinct (map fst (filter P kvs))"
  by (simp add: distinct_map_filter)

lemma upload_consistent:
  assumes c: "consistent s"
  shows "consistent (snd (upload brainId files s))"
proof (cases "fst (upload brainId files s)")
  case (Inl e)
  then show ?thesis using c by (simp add: upload_failure_unchanged)
next
  case (Inr metas)
  then obtain b where b: "brains s brainId = Some b"
    by (auto simp: upload_def Let_def split: if_splits option.splits sum.splits)
  from Inr have v: "\<not> (length files < 1 \<or> length files > 20)"
    "find (\<lambda>f. \<not> valid_upload f) files = None"
    by (auto simp: upload_def Let_def split: if_splits option.splits sum.splits)
  let ?docs = "persist (Suc (clock s)) files (documents s brainId)"
  let ?s1 = "s\<lparr>documents := (documents s)(brainId := ?docs), clock := Suc (clock s)\<rparr>"
  from c b have inv: "distinct (map fst (documents s brainId))"
    "Brain_document_count b = int (length (documents s brainId))"
    unfolding consistent_def by (auto dest: spec [of _ brainId])
  from persist_keys [OF inv(1)] have pk: "distinct (map fst ?docs)"
    "length ?docs = length (documents s brainId) + length files"
    by auto
  have r: "recordDocumentChange brainId (int (length files)) ?s1
     = Inr (?s1\<lparr>brains := (brains ?s1)(brainId \<mapsto>
                  b\<lparr>Brain_document_count := Brain_document_count b + int (length files),
                    Brain_updated_at := clock ?s1\<rparr>)\<rparr>)"
    using b inv(2) by (intro recordDocumentChange_Inr) auto
  have s': "snd (upload brainId files s)
     = ?s1\<lparr>brains := (brains ?s1)(brainId \<mapsto>
                  b\<lparr>Brain_document_count := Brain_document_count b + int (length files),
                    Brain_updated_at := clock ?s1\<rparr>),
            engine_calls := engine_calls s
               @ [Index brainId (map fst (drop (length (documents s brainId)) ?docs))]\<rparr>"
    using v b unfolding upload_def Let_def r by simp
  show ?thesis
    unfolding consistent_def
  proof
    fix i
    show "case brains (snd (upload brainId files s)) i of
            None \<Rightarrow> documents (snd (upload brainId files s)) i = []
          | Some b \<Rightarrow> distinct (map fst (documents (snd (upload brainId files s)) i))
              \<and> Brain_document_count b = int (length (documents (snd (upload brainId files s)) i))"
    proof (cases "i = brainId")
      case True
      then show ?thesis unfolding s' using pk inv(2) by simp
    next
      case False
      then show ?thesis unfolding s' using c [unfolded consistent_def, THEN spec, of i]
        by (simp split: option.splits)
    qed
  qed
qed

lemma delete_consistent:
  assumes c: "consistent s"
  shows "consistent (snd (delete brainId n s))"
proof (cases "fst (delete brainId n s)")
  case (Inl e)
  then show ?thesis using c by (simp add: delete_failure_unchanged)
next
  case (Inr u)
  then obtain b where b: "brains s brainId = Some b"
    and n: "n \<in> set (map fst (documents s brainId))"
    by (auto simp: delete_def Let_def split: if_splits option.splits sum.splits)
  let ?docs = "filter (\<lambda>(k, doc). k \<noteq> n) (documents s brainId)"
  let ?s1 = "s\<lparr>documents := (documents s)(brainId := ?docs), clock := Suc (clock s)\<rparr>"
  from c b have inv: "distinct (map fst (documents s brainId))"
    "Brain_document_count b = int (length (documents s brainId))"
    unfolding consistent_def by (auto dest: spec [of _ brainId])
  have len: "Suc (length ?docs) = length (documents s brainId)"
    using inv(1) n by (rule length_filter_key)
  have dis: "distinct (map fst ?docs)"
    using inv(1) by (rule distinct_filter_key)
  have r: "recordDocumentChange brainId (- 1) ?s1
     = Inr (?s1\<lparr>brains := (brains ?s1)(brainId \<mapsto>
                  b\<lparr>Brain_document_count := Brain_document_count b + (- 1),
                    Brain_updated_at := clock ?s1\<rparr>)\<rparr>)"
    using b inv(2) len by (intro recordDocumentChange_Inr) auto
  have s': "snd (delete brainId n s)
     = ?s1\<lparr>brains := (brains ?s1)(brainId \<mapsto>
                  b\<lparr>Brain_document_count := Brain_document_count b + (- 1),
                    Brain_updated_at := clock ?s1\<rparr>),
            engine_calls := engine_calls s @ [Reindex brainId]\<rparr>"
    using n b unfolding delete_def Let_def r by simp
  show ?thesis
    unfolding consistent_def
  proof
    fix i
    show "case brains (snd (delete brainId n s)) i of
            None \<Rightarrow> documents (snd (delete brainId n s)) i = []
          | Some b \<Rightarrow> distinct (map fst (documents (snd (delete brainId n s)) i))
              \<and> Brain_document_count b = int (length (documents (snd (delete brainId n s)) i))"
    proof (cases "i = brainId")
      case True
      then show ?thesis unfolding s' using dis len inv(2) by simp
    next
      case False
      then show ?thesis unfolding s' using c [unfolded consistent_def, THEN spec, of i]
        by (simp split: option.splits)
    qed
  qed
qed

lemma perform_consistent: "consistent s \<Longrightarrow> consistent (perform x s)"
  by (cases x) (simp_all add: upload_consistent delete_consistent)

lemma perform_all_consistent: "consistent s \<Longrightarrow> consistent (perform_all xs s)"
  by (induction xs arbitrary: s) (simp_all add: perform_consistent)

lemma case8_sum:
  "(case (a, b, c, d, e, f, g, h) of
      (Inr a', Inr b', Inr c', Inr d', Inr e', Inr f', Inr g', Inr h') \<Rightarrow> F a' b' c' d' e' f' g' h'
    | _ \<Rightarrow> G) =
   (if isl a \<or> isl b \<or> isl c \<or> isl d \<or> isl e \<or> isl f \<or> isl g \<or> isl h then G
    else F (projr a) (projr b) (projr c) (projr d) (projr e) (projr f) (projr g) (projr h))"
  by (cases a; cases b; cases c; cases d; cases e; cases f; cases g; cases h) simp_all

lemma is_integer_floor:
  assumes "is_integer r" and "l \<le> r"
  shows "l \<le> of_int \<lfloor>r\<rfloor>"
proof -
  from assms(1) have "of_int \<lfloor>r\<rfloor> = r" unfolding is_integer_def .
  with assms(2) show ?thesis by (simp only:)
qed

lemma z_int_lower:
  assumes "z_int p (Some l) hi v = Inr i"
  shows "\<exists>r. v = Some (JNum r) \<and> is_integer r \<and> l \<le> r \<and> i = \<lfloor>r\<rfloor>"
  using assms
  by (auto simp: z_int_def issues_or_def split: option.splits json.splits if_splits)

lemma BrainResponseSchema_count:
  assumes "BrainResponseSchema fmt data = Inr r"
  shows "\<exists>kv c. data = JObj kv \<and> member_of kv ''document_count'' = Some (JNum c)
           \<and> is_integer c \<and> 0 \<le> c \<and> document_count r = \<lfloor>c\<rfloor>"
proof (cases data)
  case (JObj kv)
  let ?c = "z_int ''document_count'' (Some 0) None (member_of kv ''document_count'')"
  from assms have "\<not> isl ?c" and "document_count r = projr ?c"
    unfolding JObj BrainResponseSchema_def Let_def case8_sum
    by (auto split: if_splits)
  then obtain i where "?c = Inr i" "document_count r = i"
    by (cases ?c) auto
  with z_int_lower [of "''document_count''" 0 None "member_of kv ''document_count''" i] JObj
  show ?thesis by auto
qed (use assms in \<open>simp_all add: BrainResponseSchema_def\<close>)

lemma BrainResponseSchema_nonneg:
  assumes "BrainResponseSchema fmt data = Inr r"
  shows "0 \<le> document_count r"
proof -
  from BrainResponseSchema_count [OF assms] obtain c where
    c: "is_integer c" "0 \<le> c" "document_count r = \<lfloor>c\<rfloor>" by blast
  from is_integer_floor [OF c(1,2)] have "(0::rat) \<le> of_int \<lfloor>c\<rfloor>" .
  then show ?thesis unfolding c(3) by simp
qed

text \<open>
  C1. Whatever uploads and deletions are performed on a service whose counts are right,
  whether they succeed or fail, the count of every brain is the number of the documents
  stored for it after each of them, and is not negative; an upload that fails leaves the
  service, its counts and its documents, as it was. On the side of the gateway,
  \<^verbatim>\<open>BrainResponseSchema\<close> lets through no brain whose count is not a non-negative integer.
\<close>

theorem document_count_is_number_of_documents:
  "(consistent s \<longrightarrow>
      consistent (perform_all ops s)
      \<and> (\<forall>i b. brains (perform_all ops s) i = Some b \<longrightarrow>
            Brain_document_count b = int (length (documents (perform_all ops s) i))
            \<and> 0 \<le> Brain_document_count b))
   \<and> (\<forall>e. fst (upload brainId files s) = Inl e \<longrightarrow> snd (upload brainId files s) = s)
   \<and> (\<forall>r. BrainResponseSchema fmt data = Inr r \<longrightarrow> 0 \<le> document_count r)"
proof (intro conjI impI allI)
  assume c: "consistent s"
  then show c': "consistent (perform_all ops s)"
    by (rule perform_all_consistent)
  fix i b
  assume b: "brains (perform_all ops s) i = Some b"
  with c' [unfolded consistent_def, THEN spec, of i]
  show "Brain_document_count b = int (length (documents (perform_all ops s) i))"
    by simp
  then show "0 \<le> Brain_document_count b" by simp
next
  fix e
  assume "fst (upload brainId files s) = Inl e"
  then show "snd (upload brainId files s) = s" by (rule upload_failure_unchanged)
next
  fix r
  assume "BrainResponseSchema fmt data = Inr r"
  then show "0 \<le> document_count r" by (rule BrainResponseSchema_nonneg)
qed

text \<open>C1, at a brain with no documents: two files of the same name are uploaded, the
  first is deleted, and an upload of a file that is not allowed fails.\<close>

theorem document_count_is_number_of_documents_witness:
  "consistent \<lparr>brains = [''b1'' \<mapsto> \<lparr>Brain_id = ''b1'', Brain_name = ''Docs'',
                   Brain_description = None, Brain_llm_provider = anthropic,
                   Brain_model = ''claude-3-5-sonnet-20241022'', Brain_document_count = 0,
                   Brain_created_at = 0, Brain_updated_at = 0\<rparr>],
                documents = (\<lambda>i. []), clock = 0, engine_calls = []\<rparr>
   \<and> map fst (documents
        (perform_all
           [Upload ''b1'' [\<lparr>upload_name = ''a.pdf'', upload_content_type = ''application/pdf'',
                            upload_size = 10\<rparr>,
                          \<lparr>upload_name = ''a.pdf'', upload_content_type = ''application/pdf'',
                            upload_size = 20\<rparr>],
            Delete ''b1'' ''a.pdf'',
            Upload ''b1'' [\<lparr>upload_name = ''c.exe'', upload_content_type = ''application/pdf'',
                            upload_size = 10\<rparr>]]
           \<lparr>brains = [''b1'' \<mapsto> \<lparr>Brain_id = ''b1'', Brain_name = ''Docs'',
                   Brain_description = None, Brain_llm_provider = anthropic,
                   Brain_model = ''claude-3-5-sonnet-20241022'', Brain_document_count = 0,
                   Brain_created_at = 0, Brain_updated_at = 0\<rparr>],
             documents = (\<lambda>i. []), clock = 0, engine_calls = []\<rparr>) ''b1'') = [''a.pdf_'']
   \<and> map_option Brain_document_count (brains
        (perform_all
           [Upload ''b1'' [\<lparr>upload_name = ''a.pdf'', upload_content_type = ''application/pdf'',
                            upload_size = 10\<rparr>,
                          \<lparr>upload_name = ''a.pdf'', upload_content_type = ''application/pdf'',
                            upload_size = 20\<rparr>],
            Delete ''b1'' ''a.pdf'',
            Upload ''b1'' [\<lparr>upload_name = ''c.exe'', upload_content_type = ''application/pdf'',
                            upload_size = 10\<rparr>]]
           \<lparr>brains = [''b1'' \<mapsto> \<lparr>Brain_id = ''b1'', Brain_name = ''Docs'',
                   Brain_description = None, Brain_llm_provider = anthropic,
                   Brain_model = ''claude-3-5-sonnet-20241022'', Brain_document_count = 0,
                   Brain_created_at = 0, Brain_updated_at = 0\<rparr>],
             documents = (\<lambda>i. []), clock = 0, engine_calls = []\<rparr>) ''b1'') = Some 1"
  using document_count_is_number_of_documents
    [of "\<lparr>brains = [''b1'' \<mapsto> \<lparr>Brain_id = ''b1'', Brain_name = ''Docs'',
                   Brain_description = None, Brain_llm_provider = anthropic,
                   Brain_model = ''claude-3-5-sonnet-20241022'', Brain_document_count = 0,
                   Brain_created_at = 0, Brain_updated_at = 0\<rparr>],
           documents = (\<lambda>i. []), clock = 0, engine_calls = []\<rparr>"
        "[Upload ''b1'' [\<lparr>upload_name = ''a.pdf'', upload_content_type = ''application/pdf'',
                            upload_size = 10\<rparr>,
                          \<lparr>upload_name = ''a.pdf'', upload_content_type = ''application/pdf'',
                            upload_size = 20\<rparr>],
            Delete ''b1'' ''a.pdf'',
            Upload ''b1'' [\<lparr>upload_name = ''c.exe'', upload_content_type = ''application/pdf'',
                            upload_size = 10\<rparr>]]"]
  by (simp add: consistent_def upload_def delete_def valid_upload_def extname_def last_segment_def
       lower_char_def ALLOWED_EXTENSIONS_def ALLOWED_MIME_TYPES_def
       resolve_name_def put_def recordDocumentChange_def Let_def)

section \<open>A query on a brain with no documents\<close>

text \<open>
  C4. A query on a brain whose count is zero fails with the empty-brain error, which is no
  validation error and has status 400; the service is left as it was, so the engine has
  not been invoked, whatever the engine would have answered. Through the gateway, a
  request in range on such a brain is answered with status 400 and the message of the
  service, \<^verbatim>\<open>Brain has no documents\<close>.
\<close>

theorem empty_brain_query_rejected:
  "brains s brainId = Some b \<and> Brain_document_count b = 0 \<longrightarrow>
     query eng brainId q s = (Inl EmptyBrainError, s)
     \<and> engine_calls (snd (query eng brainId q s)) = engine_calls s
     \<and> (\<forall>what. EmptyBrainError \<noteq> ValidationError what)
     \<and> status_of EmptyBrainError = 400
     \<and> (query_in_range req_body
          \<and> srv (queryBrain_request brainId (query_of req_body))
              = http_outcome (fst (query eng brainId (query_of req_body) s)) \<longrightarrow>
          fst (post_query srv brainId req_body)
            = \<lparr>status = 400,
               body = Client_error (Text ''Brain has no documents'')
                        (Some (JObj [(''error'', JStr ''Brain has no documents''),
                                     (''detail'', JStr ''Brain has no documents'')]))\<rparr>)"
proof (intro impI conjI allI)
  assume a: "brains s brainId = Some b \<and> Brain_document_count b = 0"
  then show q: "query eng brainId q s = (Inl EmptyBrainError, s)"
    by (simp add: query_def)
  then show "engine_calls (snd (query eng brainId q s)) = engine_calls s"
    by simp
  show "status_of EmptyBrainError = 400"
    by (simp add: status_of_def)
  fix what
  show "EmptyBrainError \<noteq> ValidationError what" by simp
next
  assume a: "brains s brainId = Some b \<and> Brain_document_count b = 0"
  assume r: "query_in_range req_body
          \<and> srv (queryBrain_request brainId (query_of req_body))
              = http_outcome (fst (query eng brainId (query_of req_body) s))"
  from a have "fst (query eng brainId (query_of req_body) s) = Inl EmptyBrainError"
    by (simp add: query_def)
  with r have s: "srv (queryBrain_request brainId (query_of req_body))
      = Rejected ''Request failed''
          (Some (400, JObj [(''error'', JStr ''Brain has no documents''),
                            (''detail'', JStr ''Brain has no documents'')]))"
    by (simp add: http_outcome_def status_of_def detail_of_def)
  from r have p: "QueryRequestSchema req_body = Inr (query_of req_body)"
    by (simp add: QueryRequestSchema_accepts)
  show "fst (post_query srv brainId req_body)
            = \<lparr>status = 400,
               body = Client_error (Text ''Brain has no documents'')
                        (Some (JObj [(''error'', JStr ''Brain has no documents''),
                                     (''detail'', JStr ''Brain has no documents'')]))\<rparr>"
    by (simp add: post_query_def p queryBrain_def validated_def send_def s errorHandler_def
          setupInterceptors_def detail_def member_of_def)
qed

text \<open>C4, at a brain that has just been created, with an engine that would answer.\<close>

theorem empty_brain_query_rejected_witness:
  "query (\<lambda>i q. Some \<lparr>answer = ''42'', sources = [], tokens_used = None, processing_time_ms = 1\<rparr>)
     ''b1'' \<lparr>question = ''What is a brain?'', max_tokens = 1024, temperature = 7 / 10\<rparr>
     \<lparr>brains = [''b1'' \<mapsto> \<lparr>Brain_id = ''b1'', Brain_name = ''Docs'',
                   Brain_description = None, Brain_llm_provider = anthropic,
                   Brain_model = ''claude-3-5-sonnet-20241022'', Brain_document_count = 0,
                   Brain_created_at = 0, Brain_updated_at = 0\<rparr>],
       documents = (\<lambda>i. []), clock = 0, engine_calls = []\<rparr>
   = (Inl EmptyBrainError,
      \<lparr>brains = [''b1'' \<mapsto> \<lparr>Brain_id = ''b1'', Brain_name = ''Docs'',
                   Brain_description = None, Brain_llm_provider = anthropic,
                   Brain_model = ''claude-3-5-sonnet-20241022'', Brain_document_count = 0,
                   Brain_created_at = 0, Brain_updated_at = 0\<rparr>],
        documents = (\<lambda>i. []), clock = 0, engine_calls = []\<rparr>)"
  using empty_brain_query_rejected
    [of "\<lparr>brains = [''b1'' \<mapsto> \<lparr>Brain_id = ''b1'', Brain_name = ''Docs'',
                   Brain_description = None, Brain_llm_provider = anthropic,
                   Brain_model = ''claude-3-5-sonnet-20241022'', Brain_document_count = 0,
                   Brain_created_at = 0, Brain_updated_at = 0\<rparr>],
           documents = (\<lambda>i. []), clock = 0, engine_calls = []\<rparr>"
        "''b1''"
        "\<lparr>Brain_id = ''b1'', Brain_name = ''Docs'',
                   Brain_description = None, Brain_llm_provider = anthropic,
                   Brain_model = ''claude-3-5-sonnet-20241022'', Brain_document_count = 0,
                   Brain_created_at = 0, Brain_updated_at = 0\<rparr>"
        "\<lambda>i q. Some \<lparr>answer = ''42'', sources = [], tokens_used = None, processing_time_ms = 1\<rparr>"
        "\<lparr>question = ''What is a brain?'', max_tokens = 1024, temperature = 7 / 10\<rparr>"]
  by simp

section \<open>The events of a streamed query\<close>

lemma run_final:
  "run DONE es = Some st \<longleftrightarrow> es = [] \<and> st = DONE"
  "run ERROR es = Some st \<longleftrightarrow> es = [] \<and> st = ERROR"
  by (cases es; auto)+

lemma run_sources:
  "run EMITTING_SOURCES es = Some st \<longleftrightarrow>
     (es = [] \<and> st = EMITTING_SOURCES) \<or> (es = [Done] \<and> st = DONE)
     \<or> (\<exists>m. es = [Error m] \<and> st = ERROR)"
proof (cases es)
  case Nil
  then show ?thesis by auto
next
  case (Cons e es')
  then show ?thesis by (cases e) (auto simp: run_final)
qed

lemma run_content_shape:
  assumes "run s es = Some st" and "s = STARTED \<or> s = EMITTING_CONTENT" and "st = DONE \<or> st = ERROR"
  shows "\<exists>ts rest. es = map Content ts @ rest \<and> ending rest st"
  using assms
proof (induction es arbitrary: s)
  case Nil
  then show ?case by auto
next
  case (Cons e es)
  show ?case
  proof (cases e)
    case (Content t)
    with Cons.prems have "run EMITTING_CONTENT es = Some st" by auto
    from Cons.IH [OF this _ Cons.prems(3)] obtain ts rest
      where "es = map Content ts @ rest" "ending rest st" by auto
    then have "e # es = map Content (t # ts) @ rest \<and> ending rest st"
      using Content by simp
    then show ?thesis by blast
  next
    case (Sources c)
    with Cons.prems have "run EMITTING_SOURCES es = Some st" by auto
    with Cons.prems(3) have "(es = [Done] \<and> st = DONE) \<or> (\<exists>m. es = [Error m] \<and> st = ERROR)"
      by (auto simp: run_sources)
    then have "e # es = map Content [] @ (e # es) \<and> ending (e # es) st"
      using Sources by (auto simp: ending_def)
    then show ?thesis by blast
  next
    case Done
    with Cons.prems show ?thesis by auto
  next
    case (Error m)
    with Cons.prems have "run ERROR es = Some st" by auto
    then have "es = []" "st = ERROR" by (simp_all add: run_final)
    then have "e # es = map Content [] @ [Error m] \<and> ending [Error m] st"
      using Error by (simp add: ending_def)
    then show ?thesis by blast
  qed
qed

lemma filter_map_Content:
  "filter is_terminal (map Content ts) = []" "filter is_sources (map Content ts) = []"
  "dropWhile (\<lambda>e. \<not> is_sources e) (map Content ts @ rest) = dropWhile (\<lambda>e. \<not> is_sources e) rest"
  by (induction ts) auto

lemma orchestrate_run:
  "s = STARTED \<or> s = EMITTING_CONTENT \<Longrightarrow>
     \<exists>st. run s (orchestrate ys c) = Some st \<and> (st = DONE \<or> st = ERROR)"
  by (induction ys c arbitrary: s rule: orchestrate.induct) auto

lemma contents_orchestrate: "contents (orchestrate ys c) = generated ys"
  by (induction ys c rule: orchestrate.induct) auto

lemma complete_stream:
  assumes "run STARTED es = Some st" and "st = DONE \<or> st = ERROR"
  shows "length (filter is_terminal es) = 1" "is_terminal (last es)"
    "length (filter is_sources es) \<le> 1" "st = DONE \<longrightarrow> length (filter is_sources es) = 1"
    "list_all (\<lambda>e. \<not> is_content e) (dropWhile (\<lambda>e. \<not> is_sources e) es)"
proof -
  from run_content_shape [OF assms(1) _ assms(2)] obtain ts rest
    where es: "es = map Content ts @ rest" and e: "ending rest st" by auto
  from e have ne: "rest \<noteq> []" by (auto simp: ending_def)
  show "length (filter is_terminal es) = 1"
    using e by (auto simp: es filter_map_Content ending_def)
  show "is_terminal (last es)"
    using e ne by (auto simp: es ending_def)
  show "length (filter is_sources es) \<le> 1"
    using e by (auto simp: es filter_map_Content ending_def)
  show "st = DONE \<longrightarrow> length (filter is_sources es) = 1"
    using e by (auto simp: es filter_map_Content ending_def)
  show "list_all (\<lambda>e. \<not> is_content e) (dropWhile (\<lambda>e. \<not> is_sources e) es)"
    using e by (auto simp: es filter_map_Content ending_def)
qed

text \<open>
  C3, as stated, fails on the sources of a stream that ends in an error: when the engine
  fails after a fragment, the stream is that content and the error, with no sources event.
\<close>

theorem stream_without_sources_counterexample:
  "orchestrate [Fragment ''Hel'', Raise ''engine failed''] (Inr [''a.pdf''])
     = [Content ''Hel'', Error ''engine failed'']
   \<and> run STARTED (orchestrate [Fragment ''Hel'', Raise ''engine failed''] (Inr [''a.pdf'']))
     = Some ERROR
   \<and> length (filter is_sources
       (orchestrate [Fragment ''Hel'', Raise ''engine failed''] (Inr [''a.pdf'']))) = 0"
  by simp

text \<open>
  C3, amended. Every streamed query emits its content events in the order of generation,
  emits the sources event at most once (exactly once when the stream ends with the end
  event) and only after all content events, and is ended by exactly one terminal event,
  the end or an error, which is its last event; an error can be emitted from every state
  that is not final. The first part holds of every sequence of events that takes the
  machine from its start to a final state; the orchestrator emits such a sequence for
  everything the engine can do.
\<close>

theorem stream_well_formed:
  "(run STARTED es = Some st \<and> (st = DONE \<or> st = ERROR) \<longrightarrow>
      length (filter is_terminal es) = 1 \<and> is_terminal (last es)
      \<and> length (filter is_sources es) \<le> 1
      \<and> (st = DONE \<longrightarrow> length (filter is_sources es) = 1)
      \<and> list_all (\<lambda>e. \<not> is_content e) (dropWhile (\<lambda>e. \<not> is_sources e) es))
   \<and> (\<exists>st. run STARTED (orchestrate ys c) = Some st \<and> (st = DONE \<or> st = ERROR))
   \<and> contents (orchestrate ys c) = generated ys
   \<and> (s \<noteq> DONE \<and> s \<noteq> ERROR \<longrightarrow> step s (Error m) = Some ERROR)"
proof (intro conjI impI)
  assume a: "run STARTED es = Some st \<and> (st = DONE \<or> st = ERROR)"
  then have r: "run STARTED es = Some st" and f: "st = DONE \<or> st = ERROR" by auto
  show "length (filter is_terminal es) = 1" by (rule complete_stream(1) [OF r f])
  show "is_terminal (last es)" by (rule complete_stream(2) [OF r f])
  show "length (filter is_sources es) \<le> 1" by (rule complete_stream(3) [OF r f])
  show "list_all (\<lambda>e. \<not> is_content e) (dropWhile (\<lambda>e. \<not> is_sources e) es)"
    by (rule complete_stream(5) [OF r f])
  assume "st = DONE"
  with complete_stream(4) [OF r f] show "length (filter is_sources es) = 1" by simp
next
  show "\<exists>st. run STARTED (orchestrate ys c) = Some st \<and> (st = DONE \<or> st = ERROR)"
    by (rule orchestrate_run) simp
  show "contents (orchestrate ys c) = generated ys" by (rule contents_orchestrate)
next
  assume "s \<noteq> DONE \<and> s \<noteq> ERROR"
  then show "step s (Error m) = Some ERROR" by (cases s) auto
qed

text \<open>C3, amended, at a stream of two fragments and a citation.\<close>

theorem stream_well_formed_witness:
  "orchestrate [Fragment ''Hel'', Fragment ''lo''] (Inr [''a.pdf''])
     = [Content ''Hel'', Content ''lo'', Sources [''a.pdf''], Done]
   \<and> run STARTED [Content ''Hel'', Content ''lo'', Sources [''a.pdf''], Done] = Some DONE
   \<and> length (filter is_terminal [Content ''Hel'', Content ''lo'', Sources [''a.pdf''], Done]) = 1
   \<and> length (filter is_sources [Content ''Hel'', Content ''lo'', Sources [''a.pdf''], Done]) = 1
   \<and> contents (orchestrate [Fragment ''Hel'', Fragment ''lo''] (Inr [''a.pdf'']))
     = [''Hel'', ''lo'']"
  using stream_well_formed
    [of "[Content ''Hel'', Content ''lo'', Sources [''a.pdf''], Done]" DONE
        "[Fragment ''Hel'', Fragment ''lo'']" "Inr [''a.pdf'']" STARTED "''''"]
  by simp

section \<open>The name of a document in the path\<close>




lemma unat_percent_sign: "unat (0x25 :: 16 word) = 37"
  by simp





lemma unreserved_not_slash: "unreserved c \<Longrightarrow> c \<noteq> 0x2F"
  by (auto simp: unreserved_def Let_def)


























subsection \<open>The path that leaves\<close>


























end
